theory Spec2Isabelle
  imports Complex_Main "HOL-Library.AList" "HOL-Library.Log_Nat"
begin

section \<open>Data model (types.ts)\<close>

text \<open>
  The interfaces of \<^verbatim>\<open>types.ts\<close>. A question of the authoring form is a
  question without \<^verbatim>\<open>id\<close>, \<^verbatim>\<open>survey_id\<close> and \<^verbatim>\<open>created_at\<close>
  (\<^verbatim>\<open>Omit<Question, ...>\<close>), so the stored question extends the draft. The field
  \<^verbatim>\<open>id\<close> of each interface carries the interface's initial, since \<open>id\<close> is the
  identity function of HOL. Columns that no function below reads
  (\<^verbatim>\<open>created_at\<close> of questions and answers, \<^verbatim>\<open>updated_at\<close>, the id of an
  answer row) are left out. Strings are lists of 8-bit characters.
\<close>

datatype question_type = single_choice | multiple_choice | text_type

text \<open>\<^verbatim>\<open>answer_value: string | string[]\<close>\<close>

datatype answer_value = Str string | Arr "string list"

record DraftQuestion =
  question_text :: string
  question_type :: question_type
  options :: "string list"
  is_required :: bool
  order_index :: nat

record Question = DraftQuestion +
  qid :: string
  q_survey_id :: string

record Survey =
  sid :: string
  title :: string
  description :: string
  creator_id :: string
  is_active :: bool

record Response =
  rid :: string
  survey_id :: string
  user_id :: string
  created_at :: nat

record Answer =
  response_id :: string
  question_id :: string
  answer_value :: answer_value

section \<open>JavaScript values used by the components\<close>

subsection \<open>Numbers\<close>

text \<open>
  A JavaScript number is an IEEE-754 double. The ones that arise here are not
  negative: a finite double, given by its exact rational value, \<^verbatim>\<open>NaN\<close> or
  \<^verbatim>\<open>Infinity\<close>. An arithmetic operation gives the double nearest to the exact
  result, a tie going to the even significand (\<open>fl\<close>): a double is \<open>m \<times> 2\<^sup>e\<close> with
  \<open>m < 2\<^sup>5\<^sup>3\<close> and \<open>e \<ge> -1074\<close>, and a result of \<open>2\<^sup>1\<^sup>0\<^sup>2\<^sup>4\<close> or more is \<^verbatim>\<open>Infinity\<close>.
\<close>

datatype number = Finite rat | NaN | Infinity

text \<open>The integer part of the binary logarithm of a positive rational.\<close>

definition lg2 :: "rat \<Rightarrow> int" where
  "lg2 x = (let (p, q) = quotient_of x; d = bitlen p - bitlen q
            in if 2 powi d \<le> x then d else d - 1)"

definition round_half_even :: "rat \<Rightarrow> int" where
  "round_half_even y =
     (let f = \<lfloor>y\<rfloor>; r = y - of_int f
      in if r < 1 / 2 then f else if 1 / 2 < r then f + 1 else if even f then f else f + 1)"

definition fl :: "rat \<Rightarrow> number" where
  "fl x =
     (if x = 0 then Finite 0
      else let e = max (lg2 x - 52) (- 1074);
               m = round_half_even (x / 2 powi e);
               y = of_int m * 2 powi e
           in if 2 powi 1024 \<le> y then Infinity else Finite y)"

text \<open>The number that holds a length or a count.\<close>

definition number_of_nat :: "nat \<Rightarrow> number" where
  "number_of_nat n = fl (of_nat n)"

text \<open>\<^verbatim>\<open>a / b\<close> and \<^verbatim>\<open>a * b\<close> on numbers that are not negative.\<close>

fun js_div :: "number \<Rightarrow> number \<Rightarrow> number" where
  "js_div (Finite a) (Finite b) =
     (if b \<noteq> 0 then fl (a / b) else if a = 0 then NaN else Infinity)"
| "js_div (Finite a) Infinity = Finite 0"
| "js_div Infinity (Finite b) = Infinity"
| "js_div Infinity Infinity = NaN"
| "js_div NaN b = NaN"
| "js_div a NaN = NaN"

fun js_mul :: "number \<Rightarrow> number \<Rightarrow> number" where
  "js_mul (Finite a) (Finite b) = fl (a * b)"
| "js_mul (Finite a) Infinity = (if a = 0 then NaN else Infinity)"
| "js_mul Infinity (Finite b) = (if b = 0 then NaN else Infinity)"
| "js_mul Infinity Infinity = Infinity"
| "js_mul NaN b = NaN"
| "js_mul a NaN = NaN"

text \<open>\<^verbatim>\<open>Math.round\<close>: the nearest integer, a tie going up.\<close>

fun Math_round :: "number \<Rightarrow> number" where
  "Math_round (Finite x) = Finite (of_int \<lfloor>x + 1 / 2\<rfloor>)"
| "Math_round NaN = NaN"
| "Math_round Infinity = Infinity"

subsection \<open>The values of a tally object\<close>

text \<open>
  \<^verbatim>\<open>stats.answers\<close> is declared \<^verbatim>\<open>Record<string, number>\<close> and created as the
  object literal \<^verbatim>\<open>{}\<close>, whose prototype is \<^verbatim>\<open>Object.prototype\<close>. A read of a key
  that is no own property gives what the prototype holds under that key. The values
  such an object is seen to hold are
  \<^item> \<open>Num n\<close>, the number \<open>n\<close> (a count: an integer, exact below \<open>2\<^sup>5\<^sup>3\<close>, which no
    array of answers reaches);
  \<^item> \<open>Member k\<close>, what \<^verbatim>\<open>Object.prototype\<close> holds under \<open>k\<close>: a built-in function,
    and under \<^verbatim>\<open>__proto__\<close> the prototype object itself;
  \<^item> \<open>Appended k i\<close>, the string that is the text of \<open>Member k\<close> (as
    \<^verbatim>\<open>function Object() { [native code] }\<close> for \<^verbatim>\<open>constructor\<close>) followed by \<open>i\<close> times
    the character 1.
\<close>

datatype js_value = Num nat | Member string | Appended string nat

definition objectPrototypeNames :: "string list" where
  "objectPrototypeNames =
     [''constructor'', ''__defineGetter__'', ''__defineSetter__'', ''hasOwnProperty'',
      ''__lookupGetter__'', ''__lookupSetter__'', ''isPrototypeOf'', ''propertyIsEnumerable'',
      ''toString'', ''valueOf'', ''__proto__'', ''toLocaleString'']"

text \<open>\<^verbatim>\<open>obj[k]\<close>, with \<^verbatim>\<open>undefined\<close> as \<open>None\<close>; \<open>obj\<close> is the map of the own properties.\<close>

definition get_property :: "(string \<rightharpoonup> js_value) \<Rightarrow> string \<Rightarrow> js_value option" where
  "get_property obj k =
     (case obj k of
        Some v \<Rightarrow> Some v
      | None \<Rightarrow> if k \<in> set objectPrototypeNames then Some (Member k) else None)"

text \<open>
  \<^verbatim>\<open>x || 0\<close>: \<^verbatim>\<open>undefined\<close> and the number 0 are falsy; a function, an object and a
  string that is not empty are truthy.
\<close>

fun or_zero :: "js_value option \<Rightarrow> js_value" where
  "or_zero None = Num 0"
| "or_zero (Some (Num n)) = (if n = 0 then Num 0 else Num n)"
| "or_zero (Some (Member k)) = Member k"
| "or_zero (Some (Appended k i)) = Appended k i"

text \<open>
  \<^verbatim>\<open>x + 1\<close>: addition on a number; a function or an object is converted to its text
  and, as a string is, concatenated with \<^verbatim>\<open>"1"\<close>.
\<close>

fun plus_one :: "js_value \<Rightarrow> js_value" where
  "plus_one (Num n) = Num (n + 1)"
| "plus_one (Member k) = Appended k 1"
| "plus_one (Appended k i) = Appended k (i + 1)"

text \<open>The number a value converts to in arithmetic: the text of a function or an
  object is no numeric literal.\<close>

fun ToNumber :: "js_value \<Rightarrow> number" where
  "ToNumber (Num n) = number_of_nat n"
| "ToNumber (Member k) = NaN"
| "ToNumber (Appended k i) = NaN"

subsection \<open>Other values\<close>

text \<open>
  Truthiness of \<^verbatim>\<open>answers[question.id]\<close> in \<^verbatim>\<open>TakeSurvey\<close>: \<^verbatim>\<open>undefined\<close> and the
  empty string are falsy; every other string and every array, the empty one too, is
  truthy.
\<close>

fun truthy :: "answer_value option \<Rightarrow> bool" where
  "truthy None = False"
| "truthy (Some (Str s)) = (s \<noteq> [])"
| "truthy (Some (Arr vs)) = True"

text \<open>\<^verbatim>\<open>data || []\<close> on fetched rows, which may be \<^verbatim>\<open>null\<close>.\<close>

definition orEmpty :: "'a list option \<Rightarrow> 'a list" where
  "orEmpty d = (case d of None \<Rightarrow> [] | Some rows \<Rightarrow> rows)"

text \<open>
  \<^verbatim>\<open>String.prototype.trim\<close>: white space and line terminators are removed at both
  ends. Of the characters JavaScript counts as such, the 8-bit ones are tab, line feed,
  vertical tab, form feed, carriage return, space and the no-break space.
\<close>

definition isWhiteSpace :: "char \<Rightarrow> bool" where
  "isWhiteSpace c \<longleftrightarrow>
     c \<in> {CHR 0x09, CHR 0x0A, CHR 0x0B, CHR 0x0C, CHR 0x0D, CHR 0x20, CHR 0xA0}"

definition trim :: "string \<Rightarrow> string" where
  "trim s = rev (dropWhile isWhiteSpace (rev (dropWhile isWhiteSpace s)))"

section \<open>Result aggregation (SurveyResults.tsx)\<close>

record QuestionStats =
  question :: Question
  totalResponses :: nat
  answers :: "string \<rightharpoonup> js_value"
  textAnswers :: "answer_value list"

text \<open>
  \<^verbatim>\<open>stats.answers[v] = (stats.answers[v] || 0) + 1\<close>. The value assigned is a number
  or a string; assigned under \<^verbatim>\<open>__proto__\<close> it goes to the setter of the prototype,
  which ignores a value that is no object: no own property is made.
\<close>

definition increment :: "(string \<rightharpoonup> js_value) \<Rightarrow> string \<Rightarrow> (string \<rightharpoonup> js_value)" where
  "increment obj v =
     (let value = plus_one (or_zero (get_property obj v))
      in if v = ''__proto__'' then obj else obj(v \<mapsto> value))"

text \<open>The body of \<^verbatim>\<open>questionAnswers.forEach\<close>, for one answer.\<close>

definition tally :: "(string \<rightharpoonup> js_value) \<Rightarrow> Answer \<Rightarrow> (string \<rightharpoonup> js_value)" where
  "tally obj answer =
     (case answer_value answer of
        Arr value \<Rightarrow> fold (\<lambda>v acc. increment acc v) value obj
      | Str value \<Rightarrow> increment obj value)"

text \<open>
  The function mapped over \<^verbatim>\<open>questionsData\<close> in \<^verbatim>\<open>loadResults\<close>;
  \<^verbatim>\<open>answersData\<close> may be \<^verbatim>\<open>null\<close>. The cast \<^verbatim>\<open>a.answer_value as string\<close> of the
  text branch changes no value.
\<close>

definition questionStat :: "Answer list option \<Rightarrow> Question \<Rightarrow> QuestionStats" where
  "questionStat answersData q =
     (let questionAnswers =
            (case answersData of
               None \<Rightarrow> []
             | Some rows \<Rightarrow> filter (\<lambda>a. question_id a = qid q) rows)
      in \<lparr> question = q,
           totalResponses = length questionAnswers,
           answers =
             (if question_type q = text_type then Map.empty
              else fold (\<lambda>answer acc. tally acc answer) questionAnswers Map.empty),
           textAnswers =
             (if question_type q = text_type then map answer_value questionAnswers
              else []) \<rparr>)"

definition questionStats :: "Question list option \<Rightarrow> Answer list option \<Rightarrow> QuestionStats list" where
  "questionStats questionsData answersData =
     map (questionStat answersData) (case questionsData of None \<Rightarrow> [] | Some qs \<Rightarrow> qs)"

text \<open>
  \<^verbatim>\<open>getPercentage\<close>. The total is a length; the count is whatever the read of the
  tally gave, converted to a number by the division.
\<close>

definition getPercentage :: "js_value \<Rightarrow> nat \<Rightarrow> number" where
  "getPercentage count total' =
     (if total' = 0 then Finite 0
      else Math_round (js_mul (js_div (ToNumber count) (number_of_nat total')) (Finite 100)))"

text \<open>
  One rendered row per declared option of a choice question: the option, its count
  \<^verbatim>\<open>stat.answers[option] || 0\<close> and its percentage.
\<close>

record OptionRow =
  row_option :: string
  row_count :: js_value
  row_percentage :: number

definition optionRows :: "QuestionStats \<Rightarrow> OptionRow list" where
  "optionRows stat =
     map (\<lambda>option.
            let count = or_zero (get_property (answers stat) option);
                percentage = getPercentage count (totalResponses stat)
            in \<lparr> row_option = option, row_count = count, row_percentage = percentage \<rparr>)
         (options (question stat))"

text \<open>
  What the results view shows for one question: the submitted texts of a text question
  (or a placeholder when there are none), the option rows of a choice question.
\<close>

datatype rendered = TextAnswers "answer_value list" | NoAnswersYet | OptionBars "OptionRow list"

definition renderStat :: "QuestionStats \<Rightarrow> rendered" where
  "renderStat stat =
     (if question_type (question stat) = text_type
      then (if length (textAnswers stat) > 0 then TextAnswers (textAnswers stat)
            else NoAnswersYet)
      else OptionBars (optionRows stat))"

section \<open>Response comparison (UserResponseComparison)\<close>

text \<open>
  The outcome of one query, \<^verbatim>\<open>{ data, error }\<close>: an error message, or the data,
  which may be \<^verbatim>\<open>null\<close>.
\<close>

type_synonym 'a fetched = "string + 'a option"

record ComparisonState =
  cmp_survey :: "Survey option"
  cmp_questions :: "Question list"
  cmp_responses :: "Response list"
  cmp_answers :: "Answer list"
  selectedResponses :: "string list"
  cmp_loading :: bool

text \<open>The state of a freshly mounted component (the \<^verbatim>\<open>useState\<close> initial values).\<close>

definition initialComparison :: ComparisonState where
  "initialComparison =
     \<lparr> cmp_survey = None, cmp_questions = [], cmp_responses = [], cmp_answers = [],
       selectedResponses = [], cmp_loading = True \<rparr>"

text \<open>
  The default selection of \<^verbatim>\<open>loadComparisonData\<close>. With no fetched response the
  state is not written: \<^verbatim>\<open>selectedResponses\<close> stays what it was.
\<close>

definition selectDefault :: "Response list option \<Rightarrow> string list \<Rightarrow> string list" where
  "selectDefault responsesData current =
     (case responsesData of
        None \<Rightarrow> current
      | Some rs \<Rightarrow>
          if length rs \<ge> 2 then [rid (rs ! 0), rid (rs ! 1)]
          else if length rs = 1 then [rid (rs ! 0)]
          else current)"

text \<open>
  \<^verbatim>\<open>loadComparisonData\<close>, given the outcomes of its four queries in order. A failed
  query throws: the state keeps what was set before it, and \<^verbatim>\<open>finally\<close> ends the
  loading.
\<close>

definition loadComparisonData ::
  "Survey fetched \<Rightarrow> Question list fetched \<Rightarrow> Response list fetched \<Rightarrow> Answer list fetched
    \<Rightarrow> ComparisonState \<Rightarrow> ComparisonState" where
  "loadComparisonData surveyResult questionsResult responsesResult answersResult st =
     (case surveyResult of
        Inl surveyError \<Rightarrow> st\<lparr>cmp_loading := False\<rparr>
      | Inr surveyData \<Rightarrow>
          let st1 = st\<lparr>cmp_survey := surveyData\<rparr> in
          (case questionsResult of
             Inl questionsError \<Rightarrow> st1\<lparr>cmp_loading := False\<rparr>
           | Inr questionsData \<Rightarrow>
               let st2 = st1\<lparr>cmp_questions := orEmpty questionsData\<rparr> in
               (case responsesResult of
                  Inl responsesError \<Rightarrow> st2\<lparr>cmp_loading := False\<rparr>
                | Inr responsesData \<Rightarrow>
                    let st3 = st2\<lparr>cmp_responses := orEmpty responsesData,
                                  selectedResponses :=
                                    selectDefault responsesData (selectedResponses st2)\<rparr> in
                    (case answersResult of
                       Inl answersError \<Rightarrow> st3\<lparr>cmp_loading := False\<rparr>
                     | Inr answersData \<Rightarrow>
                         st3\<lparr>cmp_answers := orEmpty answersData, cmp_loading := False\<rparr>))))"

definition toggleResponseSelection :: "string \<Rightarrow> ComparisonState \<Rightarrow> ComparisonState" where
  "toggleResponseSelection responseId st =
     (if responseId \<in> set (selectedResponses st)
      then st\<lparr>selectedResponses := filter (\<lambda>i. i \<noteq> responseId) (selectedResponses st)\<rparr>
      else if length (selectedResponses st) < 3
           then st\<lparr>selectedResponses := selectedResponses st @ [responseId]\<rparr>
           else st)"

text \<open>
  What can happen to a mounted comparison view: a checkbox is toggled, or the data is
  loaded (on mount, and again when the user or survey of the view changes).
\<close>

datatype comparison_event =
    Toggle string
  | Load "Survey fetched" "Question list fetched" "Response list fetched" "Answer list fetched"

fun comparisonStep :: "comparison_event \<Rightarrow> ComparisonState \<Rightarrow> ComparisonState" where
  "comparisonStep (Toggle responseId) st = toggleResponseSelection responseId st"
| "comparisonStep (Load sr qr rr ar) st = loadComparisonData sr qr rr ar st"

section \<open>Data store (migration create_survey_system.sql)\<close>

text \<open>
  The four tables. Of the constraints of the schema, the one a component below can
  run into is modelled: \<^verbatim>\<open>UNIQUE(survey_id, user_id)\<close> on \<^verbatim>\<open>responses\<close>. Generated
  columns (\<^verbatim>\<open>gen_random_uuid()\<close>, \<^verbatim>\<open>now()\<close>) are given by the environment of a
  request, and so is a failure of the request for a reason outside the tables (the
  network, a row-level security policy that denies it), as an optional message.
  Queries return every matching row: the reader is one the policies let read them.
\<close>

record Store =
  tbl_surveys :: "Survey list"
  tbl_questions :: "Question list"
  tbl_responses :: "Response list"
  tbl_answers :: "Answer list"

datatype store_error = request_failed string | unique_violation | multiple_rows

definition insert_survey :: "string option \<Rightarrow> Survey \<Rightarrow> Store \<Rightarrow> store_error + Store" where
  "insert_survey failure row db =
     (case failure of
        Some m \<Rightarrow> Inl (request_failed m)
      | None \<Rightarrow> Inr (db\<lparr>tbl_surveys := tbl_surveys db @ [row]\<rparr>))"

definition insert_questions ::
  "string option \<Rightarrow> Question list \<Rightarrow> Store \<Rightarrow> store_error + Store" where
  "insert_questions failure rows db =
     (case failure of
        Some m \<Rightarrow> Inl (request_failed m)
      | None \<Rightarrow> Inr (db\<lparr>tbl_questions := tbl_questions db @ rows\<rparr>))"

definition insert_response :: "string option \<Rightarrow> Response \<Rightarrow> Store \<Rightarrow> store_error + Store" where
  "insert_response failure row db =
     (case failure of
        Some m \<Rightarrow> Inl (request_failed m)
      | None \<Rightarrow>
          if \<exists>r \<in> set (tbl_responses db). survey_id r = survey_id row \<and> user_id r = user_id row
          then Inl unique_violation
          else Inr (db\<lparr>tbl_responses := tbl_responses db @ [row]\<rparr>))"

definition insert_answers :: "string option \<Rightarrow> Answer list \<Rightarrow> Store \<Rightarrow> store_error + Store" where
  "insert_answers failure rows db =
     (case failure of
        Some m \<Rightarrow> Inl (request_failed m)
      | None \<Rightarrow> Inr (db\<lparr>tbl_answers := tbl_answers db @ rows\<rparr>))"

text \<open>\<^verbatim>\<open>select('*').eq(...)\<close> and \<^verbatim>\<open>.maybeSingle()\<close>: no row is \<^verbatim>\<open>null\<close>, two are an error.\<close>

definition select_rows :: "string option \<Rightarrow> ('a \<Rightarrow> bool) \<Rightarrow> 'a list \<Rightarrow> store_error + 'a list" where
  "select_rows failure matches rows =
     (case failure of
        Some m \<Rightarrow> Inl (request_failed m)
      | None \<Rightarrow> Inr (filter matches rows))"

definition maybeSingle :: "store_error + 'a list \<Rightarrow> store_error + 'a option" where
  "maybeSingle result =
     (case result of
        Inl err \<Rightarrow> Inl err
      | Inr [] \<Rightarrow> Inr None
      | Inr [row] \<Rightarrow> Inr (Some row)
      | Inr (row # more_rows) \<Rightarrow> Inl multiple_rows)"

section \<open>Messages shown to the user\<close>

text \<open>
  The texts given to \<^verbatim>\<open>setError\<close>, by their template and what is put into it:
  the four validation messages of \<^verbatim>\<open>CreateSurvey\<close> (enter a title; add at least one
  question; the text of question \<open>n\<close> must not be empty; question \<open>n\<close> needs at least two
  options), the message of \<^verbatim>\<open>TakeSurvey\<close> asking to answer the question of a given
  text, the message of a survey that does not exist, and \<^verbatim>\<open>err.message\<close> of a failed
  request. No message is the empty string of the state.
\<close>

datatype message =
    enter_title
  | add_a_question
  | question_text_empty nat
  | need_two_options nat
  | please_answer string
  | survey_not_found
  | store_message store_error

text \<open>What a handler leaves behind: its component's state, the store, and whether it
  called \<^verbatim>\<open>onSuccess\<close>.\<close>

record 's Outcome =
  ui :: 's
  store :: Store
  onSuccess :: bool

section \<open>Survey taking (TakeSurvey)\<close>

text \<open>
  \<^verbatim>\<open>answers: Record<string, string | string[]>\<close> is kept as the list of its entries
  in insertion order, which is the order of \<^verbatim>\<open>Object.entries\<close> (question ids are
  UUIDs, not array indices); a key is written in place or appended.
\<close>

record TakeState =
  t_survey :: "Survey option"
  t_questions :: "Question list"
  t_answers :: "(string \<times> answer_value) list"
  t_loading :: bool
  t_submitting :: bool
  t_error :: "message option"
  alreadySubmitted :: bool

definition initialTake :: TakeState where
  "initialTake =
     \<lparr> t_survey = None, t_questions = [], t_answers = [], t_loading = True,
       t_submitting = False, t_error = None, alreadySubmitted = False \<rparr>"

record LoadEnv =
  load_survey_failure :: "string option"
  load_questions_failure :: "string option"
  load_existing_failure :: "string option"

text \<open>
  \<^verbatim>\<open>loadSurvey\<close>. The query for an existing response reads \<^verbatim>\<open>data\<close> only: its
  error is dropped and leaves \<^verbatim>\<open>existingResponse\<close> \<^verbatim>\<open>null\<close>.
\<close>

definition loadSurvey :: "LoadEnv \<Rightarrow> string \<Rightarrow> string \<Rightarrow> Store \<Rightarrow> TakeState \<Rightarrow> TakeState" where
  "loadSurvey env surveyId userId db st =
     (case maybeSingle (select_rows (load_survey_failure env) (\<lambda>s. sid s = surveyId)
                          (tbl_surveys db)) of
        Inl surveyError \<Rightarrow> st\<lparr>t_error := Some (store_message surveyError), t_loading := False\<rparr>
      | Inr None \<Rightarrow> st\<lparr>t_error := Some survey_not_found, t_loading := False\<rparr>
      | Inr (Some surveyData) \<Rightarrow>
          let st1 = st\<lparr>t_survey := Some surveyData\<rparr> in
          (case select_rows (load_questions_failure env) (\<lambda>q. q_survey_id q = surveyId)
                  (tbl_questions db) of
             Inl questionsError \<Rightarrow>
               st1\<lparr>t_error := Some (store_message questionsError), t_loading := False\<rparr>
           | Inr questionsData \<Rightarrow>
               let st2 = st1\<lparr>t_questions := sort_key order_index questionsData\<rparr>;
                   existingResponse =
                     (case maybeSingle (select_rows (load_existing_failure env)
                                          (\<lambda>r. survey_id r = surveyId \<and> user_id r = userId)
                                          (tbl_responses db)) of
                        Inl err \<Rightarrow> None
                      | Inr found \<Rightarrow> found)
               in (if existingResponse \<noteq> None
                   then st2\<lparr>alreadySubmitted := True, t_loading := False\<rparr>
                   else st2\<lparr>t_loading := False\<rparr>)))"

definition handleAnswerChange :: "string \<Rightarrow> answer_value \<Rightarrow> TakeState \<Rightarrow> TakeState" where
  "handleAnswerChange questionId value st =
     st\<lparr>t_answers := AList.update questionId value (t_answers st)\<rparr>"

text \<open>
  \<^verbatim>\<open>handleCheckboxChange\<close>. \<^verbatim>\<open>(answers[questionId] as string[]) || []\<close> is the
  stored value unless it is \<^verbatim>\<open>undefined\<close> or the empty string. On a non-empty
  string (which only a text or radio input writes) the spread gives its characters and
  \<^verbatim>\<open>filter\<close> does not exist: the handler throws and the state is unchanged.
\<close>

definition handleCheckboxChange :: "string \<Rightarrow> string \<Rightarrow> bool \<Rightarrow> TakeState \<Rightarrow> TakeState" where
  "handleCheckboxChange questionId option checked st =
     (case map_of (t_answers st) questionId of
        Some (Str (c # cs)) \<Rightarrow>
          if checked
          then handleAnswerChange questionId (Arr (map (\<lambda>ch. [ch]) (c # cs) @ [option])) st
          else st
      | found \<Rightarrow>
          let currentAnswers = (case found of Some (Arr vs) \<Rightarrow> vs | _ \<Rightarrow> []) in
          if checked
          then handleAnswerChange questionId (Arr (currentAnswers @ [option])) st
          else handleAnswerChange questionId
                 (Arr (filter (\<lambda>a. a \<noteq> option) currentAnswers)) st)"

text \<open>The loop of \<^verbatim>\<open>handleSubmit\<close> over the questions: the first required question
  whose recorded answer is falsy.\<close>

fun firstUnanswered :: "Question list \<Rightarrow> (string \<rightharpoonup> answer_value) \<Rightarrow> Question option" where
  "firstUnanswered [] recorded = None"
| "firstUnanswered (q # qs) recorded =
     (if is_required q \<and> \<not> truthy (recorded (qid q)) then Some q
      else firstUnanswered qs recorded)"

record SubmitEnv =
  new_rid :: string
  now :: nat
  response_failure :: "string option"
  answers_failure :: "string option"

definition handleSubmit ::
  "SubmitEnv \<Rightarrow> string \<Rightarrow> string \<Rightarrow> Store \<Rightarrow> TakeState \<Rightarrow> TakeState Outcome" where
  "handleSubmit env surveyId userId db st =
     (case firstUnanswered (t_questions st) (map_of (t_answers st)) of
        Some q \<Rightarrow>
          \<lparr> ui = st\<lparr>t_error := Some (please_answer (question_text q))\<rparr>,
            store = db, onSuccess = False \<rparr>
      | None \<Rightarrow>
          (case insert_response (response_failure env)
                  \<lparr> rid = new_rid env, survey_id = surveyId, user_id = userId,
                    created_at = now env \<rparr> db of
             Inl responseError \<Rightarrow>
               \<lparr> ui = st\<lparr>t_error := Some (store_message responseError), t_submitting := False\<rparr>,
                 store = db, onSuccess = False \<rparr>
           | Inr db1 \<Rightarrow>
               let answersToInsert =
                     map (\<lambda>(questionId, value).
                            \<lparr> response_id = new_rid env, question_id = questionId,
                              answer_value = value \<rparr>)
                         (t_answers st)
               in (case insert_answers (answers_failure env) answersToInsert db1 of
                     Inl answersError \<Rightarrow>
                       \<lparr> ui = st\<lparr>t_error := Some (store_message answersError),
                                 t_submitting := False\<rparr>,
                         store = db1, onSuccess = False \<rparr>
                   | Inr db2 \<Rightarrow>
                       \<lparr> ui = st\<lparr>t_error := None, t_submitting := False\<rparr>,
                         store = db2, onSuccess = True \<rparr>)))"

text \<open>The four returns of the component, in their order.\<close>

datatype take_view = LoadingView | AlreadySubmittedView | SurveyMissingView
  | FormView "message option"

definition renderTake :: "TakeState \<Rightarrow> take_view" where
  "renderTake st =
     (if t_loading st then LoadingView
      else if alreadySubmitted st then AlreadySubmittedView
      else if t_survey st = None then SurveyMissingView
      else FormView (t_error st))"

section \<open>Survey authoring (CreateSurvey)\<close>

record CreateState =
  c_title :: string
  c_description :: string
  c_questions :: "DraftQuestion list"
  c_loading :: bool
  c_error :: "message option"

text \<open>The loop of \<^verbatim>\<open>handleSave\<close> over the questions, from index \<open>i\<close>.\<close>

fun checkQuestions :: "nat \<Rightarrow> DraftQuestion list \<Rightarrow> message option" where
  "checkQuestions i [] = None"
| "checkQuestions i (q # qs) =
     (if trim (question_text q) = [] then Some (question_text_empty (i + 1))
      else if question_type q \<noteq> text_type \<and> length (options q) < 2
           then Some (need_two_options (i + 1))
      else checkQuestions (i + 1) qs)"

text \<open>The checks of \<^verbatim>\<open>handleSave\<close> that return early, in their order.\<close>

definition validate :: "CreateState \<Rightarrow> message option" where
  "validate st =
     (if trim (c_title st) = [] then Some enter_title
      else if length (c_questions st) = 0 then Some add_a_question
      else checkQuestions 0 (c_questions st))"

record SaveEnv =
  new_sid :: string
  new_qid :: "nat \<Rightarrow> string"
  survey_failure :: "string option"
  questions_failure :: "string option"

definition handleSave :: "SaveEnv \<Rightarrow> string \<Rightarrow> Store \<Rightarrow> CreateState \<Rightarrow> CreateState Outcome" where
  "handleSave env userId db st =
     (case validate st of
        Some m \<Rightarrow> \<lparr> ui = st\<lparr>c_error := Some m\<rparr>, store = db, onSuccess = False \<rparr>
      | None \<Rightarrow>
          (case insert_survey (survey_failure env)
                  \<lparr> sid = new_sid env, title = c_title st, description = c_description st,
                    creator_id = userId, is_active = True \<rparr> db of
             Inl surveyError \<Rightarrow>
               \<lparr> ui = st\<lparr>c_error := Some (store_message surveyError), c_loading := False\<rparr>,
                 store = db, onSuccess = False \<rparr>
           | Inr db1 \<Rightarrow>
               let questionsToInsert =
                     map (\<lambda>(i, q).
                            \<lparr> question_text = question_text q, question_type = question_type q,
                              options = options q, is_required = is_required q,
                              order_index = order_index q, qid = new_qid env i,
                              q_survey_id = new_sid env \<rparr>)
                         (enumerate 0 (c_questions st))
               in (case insert_questions (questions_failure env) questionsToInsert db1 of
                     Inl questionsError \<Rightarrow>
                       \<lparr> ui = st\<lparr>c_error := Some (store_message questionsError),
                                 c_loading := False\<rparr>,
                         store = db1, onSuccess = False \<rparr>
                   | Inr db2 \<Rightarrow>
                       \<lparr> ui = st\<lparr>c_error := None, c_loading := False\<rparr>,
                         store = db2, onSuccess = True \<rparr>)))"

section \<open>Vocabulary of the properties\<close>

text \<open>The option values an answer selects: the string itself, or the elements of the list.\<close>

fun selected :: "answer_value \<Rightarrow> string list" where
  "selected (Str s) = [s]"
| "selected (Arr vs) = vs"

text \<open>The answers to a question among fetched rows, and all values they select.\<close>

definition answersTo :: "Question \<Rightarrow> Answer list \<Rightarrow> Answer list" where
  "answersTo q rows = filter (\<lambda>a. question_id a = qid q) rows"

definition selections :: "Answer list \<Rightarrow> string list" where
  "selections as = concat (map (\<lambda>a. selected (answer_value a)) as)"

text \<open>
  The percentage as the specification words it, \<open>round(count / total \<times> 100)\<close>, with the
  rounding function of the library.
\<close>

definition spec_percentage :: "nat \<Rightarrow> nat \<Rightarrow> int" where
  "spec_percentage count total' = round (rat_of_nat count / rat_of_nat total' * 100)"





text \<open>
  A draft that must not be saved: blank title, no question, a question with blank
  text, or a choice question with fewer than two options. A message is tied to an
  offending field when that field, of the question of that number, has the defect
  the message names.
\<close>

definition invalid_draft :: "CreateState \<Rightarrow> bool" where
  "invalid_draft st \<longleftrightarrow>
     trim (c_title st) = []
     \<or> c_questions st = []
     \<or> (\<exists>q \<in> set (c_questions st). trim (question_text q) = [])
     \<or> (\<exists>q \<in> set (c_questions st). question_type q \<noteq> text_type \<and> length (options q) < 2)"

fun offends :: "CreateState \<Rightarrow> message \<Rightarrow> bool" where
  "offends st enter_title = (trim (c_title st) = [])"
| "offends st add_a_question = (c_questions st = [])"
| "offends st (question_text_empty n) =
     (1 \<le> n \<and> n \<le> length (c_questions st)
      \<and> trim (question_text (c_questions st ! (n - 1))) = [])"
| "offends st (need_two_options n) =
     (1 \<le> n \<and> n \<le> length (c_questions st)
      \<and> question_type (c_questions st ! (n - 1)) \<noteq> text_type
      \<and> length (options (c_questions st ! (n - 1))) < 2)"
| "offends st (please_answer t) = False"
| "offends st survey_not_found = False"
| "offends st (store_message err) = False"

text \<open>
  What one more increment under key \<open>k\<close> makes of the own property under \<open>k\<close>, and the
  sum of reported counts, which exists when every one of them is a number.
\<close>

definition bump :: "string \<Rightarrow> js_value option \<Rightarrow> js_value option" where
  "bump k own =
     (if k = ''__proto__'' then own
      else Some (plus_one (or_zero
             (case own of
                Some v \<Rightarrow> Some v
              | None \<Rightarrow> if k \<in> set objectPrototypeNames then Some (Member k) else None))))"

fun sum_counts :: "js_value list \<Rightarrow> nat option" where
  "sum_counts [] = Some 0"
| "sum_counts (Num n # vs) = map_option (\<lambda>s. n + s) (sum_counts vs)"
| "sum_counts (v # vs) = None"


section \<open>Example data\<close>

text \<open>
  A required question \<^verbatim>\<open>q1\<close> of survey \<^verbatim>\<open>s1\<close>, of a given type and with given
  options; the one with the options A and B; an answer row to it.
\<close>

definition choiceWith :: "question_type \<Rightarrow> string list \<Rightarrow> Question" where
  "choiceWith ty opts =
     \<lparr> question_text = ''Pick'', question_type = ty, options = opts,
       is_required = True, order_index = 0, qid = ''q1'', q_survey_id = ''s1'' \<rparr>"

definition choiceAB :: "question_type \<Rightarrow> Question" where
  "choiceAB ty = choiceWith ty [''A'', ''B'']"

definition answerOf :: "string \<Rightarrow> answer_value \<Rightarrow> Answer" where
  "answerOf r v = \<lparr> response_id = r, question_id = ''q1'', answer_value = v \<rparr>"

text \<open>A response of user \<^verbatim>\<open>u1\<close> to survey \<^verbatim>\<open>s1\<close>, created at a given time.\<close>

definition responseAt :: "string \<Rightarrow> nat \<Rightarrow> Response" where
  "responseAt r t = \<lparr> rid = r, survey_id = ''s1'', user_id = ''u1'', created_at = t \<rparr>"

text \<open>
  A store holding survey \<^verbatim>\<open>s1\<close> with given questions and no response, the same
  with one response of user \<^verbatim>\<open>u1\<close>, environments without failure, and drafts of the
  authoring form.
\<close>

definition exampleSurvey :: Survey where
  "exampleSurvey =
     \<lparr> sid = ''s1'', title = ''Lunch'', description = [], creator_id = ''u0'', is_active = True \<rparr>"

definition exampleStore :: "Question list \<Rightarrow> Store" where
  "exampleStore qs =
     \<lparr> tbl_surveys = [exampleSurvey], tbl_questions = qs, tbl_responses = [], tbl_answers = [] \<rparr>"

definition noFailure :: LoadEnv where
  "noFailure =
     \<lparr> load_survey_failure = None, load_questions_failure = None, load_existing_failure = None \<rparr>"

definition submitEnv :: "string \<Rightarrow> nat \<Rightarrow> string option \<Rightarrow> SubmitEnv" where
  "submitEnv r t failure =
     \<lparr> new_rid = r, now = t, response_failure = None, answers_failure = failure \<rparr>"


definition draftOf :: "string \<Rightarrow> DraftQuestion list \<Rightarrow> CreateState" where
  "draftOf t qs =
     \<lparr> c_title = t, c_description = [], c_questions = qs, c_loading = False, c_error = None \<rparr>"

definition draftQuestion :: "string \<Rightarrow> question_type \<Rightarrow> string list \<Rightarrow> DraftQuestion" where
  "draftQuestion t ty opts =
     \<lparr> question_text = t, question_type = ty, options = opts, is_required = True,
       order_index = 0 \<rparr>"

definition saveEnv :: SaveEnv where
  "saveEnv =
     \<lparr> new_sid = ''s2'', new_qid = (\<lambda>i. ''q''), survey_failure = None, questions_failure = None \<rparr>"

section \<open>Double-precision arithmetic\<close>

lemma pow2_pos: "0 < (2::rat) powi k"
  by (simp add: zero_less_power_int)

lemma pow2_mono: "a \<le> b \<Longrightarrow> (2::rat) powi a \<le> 2 powi b"
  by (rule power_int_increasing) simp_all

lemma pow2_strict_mono: "a < b \<Longrightarrow> (2::rat) powi a < 2 powi b"
  by (rule power_int_strict_increasing) simp_all

lemma pow2_add: "(2::rat) powi (a + b) = 2 powi a * 2 powi b"
  by (simp add: power_int_add)

lemma pow2_diff: "(2::rat) powi (a - b) = 2 powi a / 2 powi b"
  by (simp add: power_int_diff)

lemma lg2_bounds:
  assumes "0 < x"
  shows "2 powi lg2 x \<le> x \<and> x < 2 powi (lg2 x + 1)"
proof -
  obtain p q where pq: "quotient_of x = (p, q)" by (cases "quotient_of x")
  then have q: "0 < q" and x: "x = of_int p / of_int q"
    by (simp_all add: quotient_of_denom_pos quotient_of_div)
  with assms have p: "0 < p" by (simp add: zero_less_divide_iff)
  define d where "d = bitlen p - bitlen q"
  from bitlen_bounds [OF p] have p1: "2 ^ nat (bitlen p - 1) \<le> p" and p2: "p < 2 ^ nat (bitlen p)"
    by simp_all
  from bitlen_bounds [OF q] have q1: "2 ^ nat (bitlen q - 1) \<le> q" and q2: "q < 2 ^ nat (bitlen q)"
    by simp_all
  have bp: "1 \<le> bitlen p" using p by (simp add: bitlen_alt_def)
  have bq: "1 \<le> bitlen q" using q by (simp add: bitlen_alt_def)
  have P1: "(2::rat) powi (bitlen p - 1) \<le> of_int p"
  proof -
    have "(2::rat) powi (bitlen p - 1) = of_int (2 ^ nat (bitlen p - 1))"
      using bp by (simp add: power_int_nonneg_exp)
    also have "\<dots> \<le> of_int p" using p1 by (simp only: of_int_le_iff)
    finally show ?thesis .
  qed
  have P2: "of_int p < (2::rat) powi (bitlen p)"
  proof -
    have "of_int p < (of_int (2 ^ nat (bitlen p)) :: rat)" using p2 by (simp only: of_int_less_iff)
    also have "\<dots> = 2 powi (bitlen p)" using bp by (simp add: power_int_nonneg_exp)
    finally show ?thesis .
  qed
  have Q1: "(2::rat) powi (bitlen q - 1) \<le> of_int q"
  proof -
    have "(2::rat) powi (bitlen q - 1) = of_int (2 ^ nat (bitlen q - 1))"
      using bq by (simp add: power_int_nonneg_exp)
    also have "\<dots> \<le> of_int q" using q1 by (simp only: of_int_le_iff)
    finally show ?thesis .
  qed
  have Q2: "of_int q < (2::rat) powi (bitlen q)"
  proof -
    have "of_int q < (of_int (2 ^ nat (bitlen q)) :: rat)" using q2 by (simp only: of_int_less_iff)
    also have "\<dots> = 2 powi (bitlen q)" using bq by (simp add: power_int_nonneg_exp)
    finally show ?thesis .
  qed
  have qpos: "0 < (of_int q :: rat)" using q by simp
  have upper: "x < 2 powi (d + 1)"
  proof -
    have "x * of_int q = of_int p" using x qpos by simp
    also have "\<dots> < (2::rat) powi (bitlen p)" by (rule P2)
    also have "\<dots> = 2 powi (d + 1) * 2 powi (bitlen q - 1)"
      by (simp add: d_def flip: pow2_add)
    also have "\<dots> \<le> 2 powi (d + 1) * of_int q"
      using Q1 pow2_pos [of "d + 1"] by (simp add: mult_left_mono)
    finally show ?thesis using qpos by simp
  qed
  have lower: "2 powi (d - 1) < x"
  proof -
    have "(2::rat) powi (d - 1) * of_int q < 2 powi (d - 1) * 2 powi (bitlen q)"
      using Q2 pow2_pos [of "d - 1"] by (simp add: mult_strict_left_mono)
    also have "\<dots> = 2 powi (bitlen p - 1)"
      by (simp add: d_def flip: pow2_add)
    also have "\<dots> \<le> of_int p" by (rule P1)
    also have "\<dots> = x * of_int q" using x qpos by simp
    finally show ?thesis using qpos by simp
  qed
  have lg: "lg2 x = (if 2 powi d \<le> x then d else d - 1)"
    by (simp add: lg2_def pq d_def Let_def)
  show ?thesis
  proof (cases "2 powi d \<le> x")
    case True
    with lg upper show ?thesis by simp
  next
    case False
    with lg lower show ?thesis by simp
  qed
qed

lemma round_half_even_error: "\<bar>of_int (round_half_even y) - y\<bar> \<le> 1 / 2"
proof -
  have "0 \<le> y - of_int \<lfloor>y\<rfloor>" "y - of_int \<lfloor>y\<rfloor> < 1"
    by linarith+
  then show ?thesis
    by (auto simp: round_half_even_def Let_def)
qed

lemma round_half_even_of_int: "round_half_even (of_int k) = k"
  by (simp add: round_half_even_def)

lemma fl_normal:
  assumes lo: "2 powi (- 1022) \<le> x" and hi: "x < 2 powi 1023"
  shows "\<exists>y. fl x = Finite y \<and> \<bar>y - x\<bar> \<le> x * 2 powi (- 53)"
proof -
  have xpos: "0 < x" using lo pow2_pos [of "- 1022"] by linarith
  define lg where "lg = lg2 x"
  from lg2_bounds [OF xpos] have b1: "2 powi lg \<le> x" and b2: "x < 2 powi (lg + 1)"
    by (simp_all add: lg_def)
  have "(2::rat) powi (- 1022) < 2 powi (lg + 1)" using lo b2 by linarith
  then have "- 1022 < lg + 1"
    by (metis pow2_mono linorder_not_less)
  then have lg_lo: "- 1022 \<le> lg" by simp
  have "(2::rat) powi lg < 2 powi 1023" using hi b1 by linarith
  then have lg_hi: "lg < 1023"
    by (metis pow2_mono linorder_not_less)
  define e where "e = lg - 52"
  have e: "max (lg2 x - 52) (- 1074) = e" using lg_lo by (simp add: e_def lg_def)
  define m where "m = round_half_even (x / 2 powi e)"
  define y where "y = rat_of_int m * 2 powi e"
  have epos: "0 < (2::rat) powi e" by (rule pow2_pos)
  have "\<bar>of_int m - x / 2 powi e\<bar> \<le> 1 / 2"
    unfolding m_def by (rule round_half_even_error)
  then have "\<bar>of_int m - x / 2 powi e\<bar> * 2 powi e \<le> 1 / 2 * 2 powi e"
    using epos by (simp add: mult_right_mono)
  moreover have "\<bar>of_int m - x / 2 powi e\<bar> * 2 powi e = \<bar>y - x\<bar>"
  proof -
    have "\<bar>of_int m - x / 2 powi e\<bar> * 2 powi e = \<bar>(of_int m - x / 2 powi e) * 2 powi e\<bar>"
      using epos by (simp add: abs_mult)
    also have "(of_int m - x / 2 powi e) * 2 powi e = y - x"
      using epos by (simp add: y_def algebra_simps)
    finally show ?thesis .
  qed
  moreover have "1 / 2 * (2::rat) powi e = 2 powi lg * 2 powi (- 53)"
  proof -
    have "(2::rat) powi e = 2 powi (lg + (- 53) + 1)" by (simp add: e_def)
    also have "\<dots> = 2 powi lg * 2 powi (- 53) * 2"
      by (simp only: pow2_add) simp
    finally show ?thesis by simp
  qed
  ultimately have err0: "\<bar>y - x\<bar> \<le> 2 powi lg * 2 powi (- 53)" by simp
  also have "\<dots> \<le> x * 2 powi (- 53)"
    using b1 pow2_pos [of "- 53"] by (simp add: mult_right_mono)
  finally have err: "\<bar>y - x\<bar> \<le> x * 2 powi (- 53)" .
  have "(2::rat) powi (- 53) \<le> 1" by simp
  then have "x * 2 powi (- 53) \<le> x * 1" using xpos by (intro mult_left_mono) simp_all
  with err have "y \<le> 2 * x" by linarith
  also have "\<dots> < 2 * 2 powi 1023" using hi by simp
  also have "\<dots> = (2::rat) powi 1024" by simp
  finally have "\<not> 2 powi 1024 \<le> y" by simp
  then have "fl x = Finite y"
    using xpos by (simp add: fl_def e Let_def m_def [symmetric] y_def [symmetric])
  with err show ?thesis by blast
qed

lemma fl_zero: "fl 0 = Finite 0"
  by (simp add: fl_def)

lemma fl_of_nat:
  assumes "n < 2 ^ 53"
  shows "fl (of_nat n) = Finite (of_nat n)"
proof (cases "n = 0")
  case True
  then show ?thesis by (simp add: fl_zero)
next
  case False
  define x where "x = rat_of_nat n"
  have xpos: "0 < x" and x1: "1 \<le> x" using False by (simp_all add: x_def)
  have xhi: "x < 2 powi 53"
  proof -
    have "rat_of_nat n < rat_of_nat (2 ^ 53)" using assms by (simp only: of_nat_less_iff)
    then show ?thesis by (simp add: x_def)
  qed
  define lg where "lg = lg2 x"
  from lg2_bounds [OF xpos] have b1: "2 powi lg \<le> x" and b2: "x < 2 powi (lg + 1)"
    by (simp_all add: lg_def)
  have "(2::rat) powi 0 < 2 powi (lg + 1)" using x1 b2 by simp
  then have "0 < lg + 1" by (metis pow2_mono linorder_not_less)
  then have lg0: "0 \<le> lg" by simp
  have "(2::rat) powi lg < 2 powi 53" using xhi b1 by linarith
  then have lg53: "lg < 53" by (metis pow2_mono linorder_not_less)
  define k where "k = nat (52 - lg)"
  have e: "max (lg2 x - 52) (- 1074) = - int k" using lg0 lg53 by (simp add: k_def lg_def)
  have pk: "(2::rat) powi (- int k) = 1 / 2 ^ k" by (simp add: power_int_minus_divide)
  have s: "x / 2 powi (- int k) = of_int (int n * 2 ^ k)"
    by (simp add: pk x_def)
  have m: "round_half_even (x / 2 powi (- int k)) = int n * 2 ^ k"
    unfolding s by (rule round_half_even_of_int)
  have y: "rat_of_int (int n * 2 ^ k) * 2 powi (- int k) = x"
    by (simp add: pk x_def)
  have "x < 2 powi 1024"
    using xhi pow2_strict_mono [of 53 1024] by simp
  then have nov: "\<not> 2 powi 1024 \<le> x" by simp
  from xpos have "x \<noteq> 0" by simp
  then have "fl x =
      (if 2 powi 1024 \<le> rat_of_int (round_half_even (x / 2 powi (- int k))) * 2 powi (- int k)
       then Infinity
       else Finite (of_int (round_half_even (x / 2 powi (- int k))) * 2 powi (- int k)))"
    unfolding fl_def Let_def e by (rule if_not_P)
  also have "\<dots> = (if 2 powi 1024 \<le> x then Infinity else Finite x)"
    by (simp only: m y)
  also have "\<dots> = Finite x"
    using nov by (rule if_not_P)
  finally show ?thesis by (simp only: x_def)
qed

lemma number_of_nat_exact: "n < 2 ^ 53 \<Longrightarrow> number_of_nat n = Finite (of_nat n)"
  by (simp add: number_of_nat_def fl_of_nat)



lemma getPercentage_zero_count:
  assumes "t \<noteq> 0" "t < 2 ^ 53"
  shows "getPercentage (Num 0) t = Finite 0"
proof -
  have "\<lfloor>1 / 2 :: rat\<rfloor> = 0" by (simp add: floor_eq_iff)
  then show ?thesis
    using assms by (simp add: getPercentage_def number_of_nat_exact fl_zero)
qed

text \<open>The double-precision product stays close to the exact share.\<close>

lemma product_close:
  assumes n: "0 < n" "n < 2 ^ 43" and t: "0 < t" "t < 2 ^ 53"
  shows "\<exists>y. js_mul (js_div (ToNumber (Num n)) (number_of_nat t)) (Finite 100) = Finite y
           \<and> \<bar>y - rat_of_nat n / rat_of_nat t * 100\<bar> < 1 / (2 * rat_of_nat t)"
proof -
  define N where "N = rat_of_nat n"
  define T where "T = rat_of_nat t"
  define u where "u = (2::rat) powi (- 53)"
  have Npos: "1 \<le> N" and Tpos: "1 \<le> T" using n t by (simp_all add: N_def T_def)
  have Nhi: "N < 2 ^ 43"
  proof -
    have "rat_of_nat n < rat_of_nat (2 ^ 43)" using n(2) by (simp only: of_nat_less_iff)
    then show ?thesis by (simp add: N_def)
  qed
  have Thi: "T < 2 ^ 53"
  proof -
    have "rat_of_nat t < rat_of_nat (2 ^ 53)" using t(2) by (simp only: of_nat_less_iff)
    then show ?thesis by (simp add: T_def)
  qed
  have u: "u = 1 / 2 ^ 53" by (simp add: u_def power_int_minus_divide)
  have n53: "n < 2 ^ 53" using n(2) by simp
  define x1 where "x1 = N / T"
  have x1pos: "0 < x1" using Npos Tpos by (simp add: x1_def)
  have x1lo: "1 / 2 ^ 53 < x1"
  proof -
    have "1 / 2 ^ 53 < 1 / T" using Thi Tpos by (simp add: field_simps)
    also have "\<dots> \<le> N / T" using Npos Tpos by (simp add: field_simps)
    finally show ?thesis by (simp add: x1_def)
  qed
  have x1hi: "x1 < 2 ^ 43"
  proof -
    have "N / T \<le> N" using Npos Tpos by (simp add: field_simps)
    with Nhi show ?thesis by (simp add: x1_def)
  qed
  have "2 powi (- 1022) \<le> x1"
  proof -
    have "(2::rat) powi (- 1022) \<le> 2 powi (- 53)" by (rule pow2_mono) simp
    also have "\<dots> = 1 / 2 ^ 53" by (simp add: power_int_minus_divide)
    finally show ?thesis using x1lo by linarith
  qed
  moreover have "x1 < 2 powi 1023"
  proof -
    have "(2::rat) ^ 43 = 2 powi 43" by simp
    also have "\<dots> \<le> 2 powi 1023" by (rule pow2_mono) simp
    finally show ?thesis using x1hi by linarith
  qed
  ultimately obtain y1 where y1: "fl x1 = Finite y1" and e1: "\<bar>y1 - x1\<bar> \<le> x1 * u"
    using fl_normal [of x1] unfolding u_def by blast
  have ule: "u \<le> 1 / 2" unfolding u by simp
  have upos: "0 < u" unfolding u by simp
  have "x1 * u \<le> x1 * (1 / 2)" using ule x1pos by (intro mult_left_mono) simp_all
  with e1 have y1lo: "x1 / 2 \<le> y1" and y1hi: "y1 \<le> 2 * x1" by (simp_all add: abs_le_iff)
  define x2 where "x2 = y1 * 100"
  have "2 powi (- 1022) \<le> x2"
  proof -
    have "(2::rat) powi (- 1022) \<le> 2 powi (- 53)" by (rule pow2_mono) simp
    also have "\<dots> = 1 / 2 ^ 53" by (simp add: power_int_minus_divide)
    also have "\<dots> \<le> x2" using x1lo y1lo by (simp add: x2_def)
    finally show ?thesis .
  qed
  moreover have "x2 < 2 powi 1023"
  proof -
    have "x2 \<le> 200 * x1" using y1hi by (simp add: x2_def)
    also have "\<dots> < 200 * 2 ^ 43" using x1hi by simp
    also have "\<dots> \<le> (2::rat) ^ 51" by simp
    also have "\<dots> = 2 powi 51" by simp
    also have "\<dots> \<le> 2 powi 1023" by (rule pow2_mono) simp
    finally show ?thesis .
  qed
  ultimately obtain y2 where y2: "fl x2 = Finite y2" and e2: "\<bar>y2 - x2\<bar> \<le> x2 * u"
    using fl_normal [of x2] unfolding u_def by blast
  have Tne: "T \<noteq> 0" using Tpos by simp
  have cn: "ToNumber (Num n) = Finite N"
    using number_of_nat_exact [OF n53] by (simp add: N_def)
  have ct: "number_of_nat t = Finite T"
    using number_of_nat_exact [OF t(2)] by (simp add: T_def)
  have "js_div (Finite N) (Finite T) = Finite y1"
    using Tne y1 by (simp add: x1_def)
  moreover have "js_mul (Finite y1) (Finite 100) = Finite y2"
    using y2 by (simp add: x2_def)
  ultimately
  have "js_mul (js_div (ToNumber (Num n)) (number_of_nat t)) (Finite 100) = Finite y2"
    by (simp only: cn ct)
  moreover have "\<bar>y2 - N / T * 100\<bar> < 1 / (2 * T)"
  proof -
    have "x2 * u \<le> 200 * x1 * u" using y1hi upos by (simp add: x2_def)
    with e2 have a: "\<bar>y2 - x2\<bar> \<le> 200 * x1 * u" by linarith
    have b: "\<bar>x2 - x1 * 100\<bar> \<le> 100 * x1 * u"
      using e1 by (simp add: x2_def abs_le_iff)
    have "\<bar>y2 - x1 * 100\<bar> \<le> \<bar>y2 - x2\<bar> + \<bar>x2 - x1 * 100\<bar>" by linarith
    with a b have c: "\<bar>y2 - x1 * 100\<bar> \<le> 300 * x1 * u" by linarith
    have "300 * x1 * u = (600 * N / 2 ^ 53) * (1 / (2 * T))"
      using Tne by (simp add: x1_def u)
    also have "\<dots> < 1 * (1 / (2 * T))"
    proof (rule mult_strict_right_mono)
      have "600 * N < 600 * 2 ^ 43" using Nhi by simp
      also have "\<dots> \<le> (2::rat) ^ 53" by simp
      finally show "600 * N / 2 ^ 53 < 1" by simp
      show "0 < 1 / (2 * T)" using Tpos by simp
    qed
    finally show ?thesis using c by (simp add: x1_def)
  qed
  ultimately show ?thesis unfolding N_def T_def by blast
qed

lemma nearest_of_close:
  assumes t: "0 < t"
    and close: "\<bar>y - rat_of_nat n / rat_of_nat t * 100\<bar> < 1 / (2 * rat_of_nat t)"
  shows "\<bar>rat_of_int \<lfloor>y + 1 / 2\<rfloor> - rat_of_nat n / rat_of_nat t * 100\<bar> \<le> 1 / 2"
proof -
  define T where "T = rat_of_nat t"
  define N where "N = rat_of_nat n"
  define p where "p = \<lfloor>y + 1 / 2\<rfloor>"
  define D where "D = p * int t - 100 * int n"
  have Tpos: "0 < T" using t by (simp add: T_def)
  have p1: "rat_of_int p \<le> y + 1 / 2" and p2: "y + 1 / 2 < rat_of_int p + 1"
    unfolding p_def by linarith+
  define Z where "Z = (rat_of_int p - N / T * 100) * T"
  have DT: "rat_of_int D = Z"
    using Tpos by (simp add: Z_def D_def T_def N_def algebra_simps)
  from close have c1: "y - N / T * 100 < 1 / (2 * T)" and c2: "N / T * 100 - y < 1 / (2 * T)"
    by (simp_all add: T_def N_def abs_less_iff)
  have half: "(1 / 2 + 1 / (2 * T)) * T = (T + 1) / 2"
    using Tpos by (simp add: field_simps)
  have "rat_of_int p - N / T * 100 < 1 / 2 + 1 / (2 * T)" using p1 c1 by linarith
  then have "(rat_of_int p - N / T * 100) * T < (1 / 2 + 1 / (2 * T)) * T"
    using Tpos by (simp only: mult_strict_right_mono)
  then have "Z < (T + 1) / 2" by (simp only: half Z_def)
  then have "2 * rat_of_int D < T + 1" by (simp add: DT)
  then have "rat_of_int (2 * D) < rat_of_int (int t + 1)" by (simp add: T_def)
  then have "2 * D < int t + 1" by (simp only: of_int_less_iff)
  then have u1: "2 * D \<le> int t" by simp
  have "N / T * 100 - rat_of_int p < 1 / 2 + 1 / (2 * T)" using p2 c2 by linarith
  then have "(N / T * 100 - rat_of_int p) * T < (1 / 2 + 1 / (2 * T)) * T"
    using Tpos by (simp only: mult_strict_right_mono)
  moreover have "(N / T * 100 - rat_of_int p) * T = - Z" by (simp add: Z_def algebra_simps)
  ultimately have "- Z < (T + 1) / 2" by (simp only: half)
  then have "- 2 * rat_of_int D < T + 1" by (simp add: DT)
  then have "rat_of_int (- 2 * D) < rat_of_int (int t + 1)" by (simp add: T_def)
  then have "- 2 * D < int t + 1" by (simp only: of_int_less_iff)
  then have u2: "- 2 * D \<le> int t" by simp
  have "rat_of_int (2 * D) \<le> rat_of_int (int t)" using u1 by (simp only: of_int_le_iff)
  then have r1: "Z \<le> (1 / 2) * T" by (simp add: DT T_def)
  have "rat_of_int (- 2 * D) \<le> rat_of_int (int t)" using u2 by (simp only: of_int_le_iff)
  then have r2: "(- (1 / 2)) * T \<le> Z" by (simp add: DT T_def)
  have g1: "rat_of_int p - N / T * 100 \<le> 1 / 2"
    using r1 Tpos unfolding Z_def by (simp only: mult_le_cancel_right_pos)
  have "- (1 / 2) \<le> rat_of_int p - N / T * 100"
    using r2 Tpos unfolding Z_def by (simp only: mult_le_cancel_right_pos)
  then have g2: "- (rat_of_int p - N / T * 100) \<le> 1 / 2"
    by (simp only: minus_le_iff)
  from g1 g2 have "\<bar>rat_of_int p - N / T * 100\<bar> \<le> 1 / 2"
    by (rule abs_leI)
  then show ?thesis
    unfolding p_def N_def T_def .
qed

lemma round_of_nearest:
  assumes "\<bar>rat_of_int p - x\<bar> \<le> 1 / 2" and "frac x \<noteq> 1 / 2"
  shows "p = round x"
proof -
  have "x - rat_of_int p \<noteq> 1 / 2"
  proof
    assume "x - rat_of_int p = 1 / 2"
    then have "x = rat_of_int p + 1 / 2" by simp
    then have "frac x = 1 / 2" by (simp add: frac_unique_iff)
    with assms(2) show False by simp
  qed
  with assms(1) have "rat_of_int p \<le> x + 1 / 2" "x + 1 / 2 < rat_of_int p + 1"
    by linarith+
  then have "\<lfloor>x + 1 / 2\<rfloor> = p" by (simp add: floor_unique)
  then show ?thesis by (simp add: round_def)
qed

lemma getPercentage_nearest:
  assumes n: "n < 2 ^ 43" and t: "0 < t" "t < 2 ^ 53"
  shows "\<exists>p. getPercentage (Num n) t = Finite (rat_of_int p)
           \<and> \<bar>rat_of_int p - rat_of_nat n / rat_of_nat t * 100\<bar> \<le> 1 / 2"
proof (cases "n = 0")
  case True
  have "getPercentage (Num 0) t = Finite (rat_of_int 0)"
    using getPercentage_zero_count [of t] t by simp
  with True show ?thesis by (intro exI [of _ 0]) simp
next
  case False
  then have "0 < n" by simp
  from product_close [OF this n t] obtain y where
    y: "js_mul (js_div (ToNumber (Num n)) (number_of_nat t)) (Finite 100) = Finite y"
    and close: "\<bar>y - rat_of_nat n / rat_of_nat t * 100\<bar> < 1 / (2 * rat_of_nat t)"
    by blast
  have "getPercentage (Num n) t = Finite (rat_of_int \<lfloor>y + 1 / 2\<rfloor>)"
    using t(1) y by (simp add: getPercentage_def)
  with nearest_of_close [OF t(1) close] show ?thesis by blast
qed

lemma getPercentage_round:
  assumes "n < 2 ^ 43" and "0 < t" "t < 2 ^ 53"
    and "frac (rat_of_nat n / rat_of_nat t * 100) \<noteq> 1 / 2"
  shows "getPercentage (Num n) t = Finite (rat_of_int (spec_percentage n t))"
proof -
  from getPercentage_nearest [OF assms(1-3)] obtain p where
    "getPercentage (Num n) t = Finite (rat_of_int p)"
    "\<bar>rat_of_int p - rat_of_nat n / rat_of_nat t * 100\<bar> \<le> 1 / 2"
    by blast
  with round_of_nearest [OF _ assms(4)] show ?thesis
    by (simp add: spec_percentage_def)
qed







lemma spec_percentage_div:
  "t \<noteq> 0 \<Longrightarrow> spec_percentage c t = int ((200 * c + t) div (2 * t))"
proof -
  assume t: "t \<noteq> 0"
  have "rat_of_nat c / rat_of_nat t * 100 + 1 / 2
          = rat_of_int (int (200 * c + t)) / rat_of_int (int (2 * t))"
    using t by (simp add: field_simps)
  then have "\<lfloor>rat_of_nat c / rat_of_nat t * 100 + 1 / 2\<rfloor> = int (200 * c + t) div int (2 * t)"
    by (simp only: floor_divide_of_int_eq)
  then show ?thesis by (simp add: spec_percentage_def round_def zdiv_int)
qed


lemma tie_mod:
  assumes t: "0 < t" and tie: "frac (rat_of_nat n / rat_of_nat t * 100) = 1 / 2"
  shows "(200 * n) mod (2 * t) = t"
proof -
  define k where "k = \<lfloor>rat_of_nat n / rat_of_nat t * 100\<rfloor>"
  have Tpos: "0 < rat_of_nat t" using t by simp
  have "rat_of_nat n / rat_of_nat t * 100 = rat_of_int k + 1 / 2"
    using tie by (simp add: frac_def k_def)
  then have "rat_of_nat n * 100 = (rat_of_int k + 1 / 2) * rat_of_nat t"
    using Tpos by (simp add: field_simps)
  then have "rat_of_int (200 * int n) = rat_of_int ((2 * k + 1) * int t)"
    by (simp add: algebra_simps)
  then have eq: "200 * int n = (2 * k + 1) * int t"
    by (simp only: of_int_eq_iff)
  have "0 \<le> rat_of_nat n / rat_of_nat t * 100" by simp
  then have k0: "0 \<le> k" by (simp add: k_def)
  have "int ((200 * n) mod (2 * t)) = (200 * int n) mod (2 * int t)"
    by (simp add: zmod_int)
  also have "\<dots> = (int t + k * (2 * int t)) mod (2 * int t)"
  proof -
    have "200 * int n = int t + k * (2 * int t)" using eq by (simp add: algebra_simps)
    then show ?thesis by (simp only:)
  qed
  also have "\<dots> = int t mod (2 * int t)"
    by (simp only: mod_mult_self1)
  also have "\<dots> = int t" using t by simp
  finally show ?thesis by simp
qed

lemma getPercentage_round_div:
  assumes "n < 2 ^ 43" and "0 < t" "t < 2 ^ 53" and "(200 * n) mod (2 * t) \<noteq> t"
  shows "getPercentage (Num n) t = Finite (rat_of_nat ((200 * n + t) div (2 * t)))"
proof -
  have "frac (rat_of_nat n / rat_of_nat t * 100) \<noteq> 1 / 2"
    using tie_mod [OF assms(2)] assms(4) by blast
  from getPercentage_round [OF assms(1-3) this] show ?thesis
    using assms(2) by (simp add: spec_percentage_div)
qed

lemma getPercentage_examples:
  "getPercentage (Num 2) 3 = Finite 67" "getPercentage (Num 1) 3 = Finite 33"
  "getPercentage (Num 1) 1 = Finite 100" "getPercentage (Num 0) 1 = Finite 0"
  by (simp_all add: getPercentage_round_div)

section \<open>Tallies\<close>

lemma increment_apply: "increment obj v k = (if k = v then bump k (obj k) else obj k)"
  by (simp add: increment_def bump_def get_property_def Let_def)

lemma fold_increment_apply:
  "fold (\<lambda>v acc. increment acc v) vs obj k = (bump k ^^ count_list vs k) (obj k)"
proof (induction vs arbitrary: obj)
  case Nil
  then show ?case by simp
next
  case (Cons v vs)
  have "fold (\<lambda>v acc. increment acc v) (v # vs) obj k
          = (bump k ^^ count_list vs k) (increment obj v k)"
    by (simp add: Cons.IH)
  also have "\<dots> = (bump k ^^ count_list (v # vs) k) (obj k)"
    by (simp add: increment_apply funpow_swap1)
  finally show ?case .
qed

lemma tally_apply:
  "tally obj a k = (bump k ^^ count_list (selected (answer_value a)) k) (obj k)"
  by (cases "answer_value a") (simp_all add: tally_def fold_increment_apply increment_apply)

lemma fold_tally_apply:
  "fold (\<lambda>answer acc. tally acc answer) as obj k
     = (bump k ^^ count_list (selections as) k) (obj k)"
proof (induction as arbitrary: obj)
  case Nil
  then show ?case by (simp add: selections_def)
next
  case (Cons a as)
  have "fold (\<lambda>answer acc. tally acc answer) (a # as) obj k
          = (bump k ^^ count_list (selections as) k) (tally obj a k)"
    by (simp add: Cons.IH)
  also have "\<dots> = (bump k ^^ (count_list (selections as) k
                        + count_list (selected (answer_value a)) k)) (obj k)"
    by (simp only: tally_apply funpow_add o_apply)
  also have "count_list (selections as) k + count_list (selected (answer_value a)) k
               = count_list (selections (a # as)) k"
    by (simp add: selections_def)
  finally show ?case .
qed

lemma answers_questionStat:
  "question_type q \<noteq> text_type \<Longrightarrow>
   answers (questionStat (Some rows) q) k
     = (bump k ^^ count_list (selections (answersTo q rows)) k) None"
  by (simp add: questionStat_def answersTo_def Let_def fold_tally_apply)

lemma bump_ordinary:
  assumes "k \<notin> set objectPrototypeNames"
  shows "(bump k ^^ c) None = (if c = 0 then None else Some (Num c))"
proof -
  have k: "k \<noteq> ''__proto__''" using assms by (auto simp: objectPrototypeNames_def)
  show ?thesis
  proof (induction c)
    case 0
    then show ?case by simp
  next
    case (Suc c)
    then show ?case using assms k by (simp add: bump_def)
  qed
qed

lemma count_questionStat:
  assumes "question_type q \<noteq> text_type" and "k \<notin> set objectPrototypeNames"
  shows "or_zero (get_property (answers (questionStat (Some rows) q)) k)
           = Num (count_list (selections (answersTo q rows)) k)"
  using assms by (simp add: get_property_def answers_questionStat bump_ordinary)

lemma totalResponses_questionStat:
  "totalResponses (questionStat (Some rows) q) = length (answersTo q rows)"
  by (simp add: questionStat_def answersTo_def Let_def)

lemma question_questionStat: "question (questionStat d q) = q"
  by (simp add: questionStat_def Let_def)


lemma questionStats_nth:
  "i < length qs \<Longrightarrow> questionStats (Some qs) d ! i = questionStat d (qs ! i)"
  by (simp add: questionStats_def)



lemma row_count_optionRows:
  "map row_count (optionRows stat)
     = map (\<lambda>option. or_zero (get_property (answers stat) option)) (options (question stat))"
  by (simp add: optionRows_def Let_def comp_def)

lemma row_count_same:
  assumes "question_type q \<noteq> text_type"
    and "\<forall>k \<in> set (options q).
           count_list (selections (answersTo q rows)) k
             = count_list (selections (answersTo q rows')) k"
  shows "map row_count (optionRows (questionStat (Some rows) q))
           = map row_count (optionRows (questionStat (Some rows') q))"
  using assms
  by (simp add: row_count_optionRows question_questionStat get_property_def answers_questionStat)

lemma row_count_questionStat:
  assumes "question_type q \<noteq> text_type" and "set (options q) \<inter> set objectPrototypeNames = {}"
  shows "map row_count (optionRows (questionStat (Some rows) q))
           = map (\<lambda>k. Num (count_list (selections (answersTo q rows)) k)) (options q)"
proof -
  have "or_zero (get_property (answers (questionStat (Some rows) q)) k)
          = Num (count_list (selections (answersTo q rows)) k)"
    if "k \<in> set (options q)" for k
    using that assms by (intro count_questionStat) auto
  then show ?thesis
    by (simp add: row_count_optionRows question_questionStat)
qed

lemma renderStat_choice:
  "question_type q \<noteq> text_type \<Longrightarrow>
   renderStat (questionStat d q) = OptionBars (optionRows (questionStat d q))"
  by (simp add: renderStat_def question_questionStat)



lemma example_names:
  "''A'' \<notin> set objectPrototypeNames" "''B'' \<notin> set objectPrototypeNames"
  "''C'' \<notin> set objectPrototypeNames" "''constructor'' \<in> set objectPrototypeNames"
  "''__proto__'' \<in> set objectPrototypeNames"
  by (simp_all add: objectPrototypeNames_def)

lemmas eval_defs = optionRows_def questionStat_def questionStats_def tally_def increment_def
  get_property_def example_names choiceAB_def choiceWith_def answerOf_def
  answersTo_def selections_def orEmpty_def renderStat_def





subsection \<open>One answer's contribution\<close>


lemma answersTo_append: "answersTo q (xs @ ys) = answersTo q xs @ answersTo q ys"
  by (simp add: answersTo_def)

lemma answersTo_Cons:
  "answersTo q (a # ys) = (if question_id a = qid q then a # answersTo q ys else answersTo q ys)"
  by (simp add: answersTo_def)

lemma selections_append: "selections (xs @ ys) = selections xs @ selections ys"
  by (simp add: selections_def)

lemma selections_Cons: "selections (a # ys) = selected (answer_value a) @ selections ys"
  by (simp add: selections_def)








subsection \<open>Values outside the declared options\<close>

lemma count_list_filter_declared:
  "k \<in> S \<Longrightarrow> count_list (filter (\<lambda>v. v \<in> S) vs) k = count_list vs k"
  by (induction vs) auto

text \<open>
  C5. For a choice question, an answer whose value names no declared option (a string
  that is not declared, or a list none of whose elements is) changes no reported
  count: the rows show the counts they show without that answer. In a list value the
  undeclared elements alone are ignored: dropping them from the list changes no
  reported count. Aggregation has no error result; the question is rendered as option
  rows all the same.
\<close>

theorem undeclared_values_are_ignored:
  assumes "question_type q \<noteq> text_type"
  shows "(set (selected (answer_value a)) \<inter> set (options q) = {} \<longrightarrow>
           map row_count (optionRows (questionStat (Some (xs @ a # ys)) q))
             = map row_count (optionRows (questionStat (Some (xs @ ys)) q)))
       \<and> map row_count
            (optionRows (questionStat (Some (xs @ a\<lparr>answer_value := Arr vs\<rparr> # ys)) q))
           = map row_count (optionRows (questionStat
               (Some (xs @ a\<lparr>answer_value := Arr (filter (\<lambda>v. v \<in> set (options q)) vs)\<rparr> # ys))
               q))
       \<and> renderStat (questionStat (Some (xs @ a # ys)) q)
           = OptionBars (optionRows (questionStat (Some (xs @ a # ys)) q))"
proof -
  have 1: "map row_count (optionRows (questionStat (Some (xs @ a # ys)) q))
             = map row_count (optionRows (questionStat (Some (xs @ ys)) q))"
    if disj: "set (selected (answer_value a)) \<inter> set (options q) = {}"
  proof (rule row_count_same [OF assms], rule ballI)
    fix k assume "k \<in> set (options q)"
    with disj have "count_list (selected (answer_value a)) k = 0"
      by (auto simp: count_list_0_iff)
    then show "count_list (selections (answersTo q (xs @ a # ys))) k
                 = count_list (selections (answersTo q (xs @ ys))) k"
      by (simp add: answersTo_append answersTo_Cons selections_append selections_Cons)
  qed
  have 2: "map row_count
             (optionRows (questionStat (Some (xs @ a\<lparr>answer_value := Arr vs\<rparr> # ys)) q))
           = map row_count (optionRows (questionStat
               (Some (xs @ a\<lparr>answer_value := Arr (filter (\<lambda>v. v \<in> set (options q)) vs)\<rparr> # ys))
               q))"
  proof (rule row_count_same [OF assms], rule ballI)
    fix k assume "k \<in> set (options q)"
    then show "count_list (selections (answersTo q (xs @ a\<lparr>answer_value := Arr vs\<rparr> # ys))) k
                 = count_list (selections (answersTo q
                     (xs @ a\<lparr>answer_value := Arr (filter (\<lambda>v. v \<in> set (options q)) vs)\<rparr> # ys))) k"
      by (simp add: answersTo_append answersTo_Cons selections_append selections_Cons
          count_list_filter_declared)
  qed
  show ?thesis
    using 1 2 assms by (simp add: renderStat_choice)
qed

theorem undeclared_values_are_ignored_witness:
  "question_type (choiceAB single_choice) \<noteq> text_type
   \<and> set (selected (answer_value (answerOf ''r2'' (Str ''C''))))
       \<inter> set (options (choiceAB single_choice)) = {}
   \<and> map row_count (optionRows (questionStat
         (Some ([answerOf ''r1'' (Str ''A'')] @ answerOf ''r2'' (Str ''C'')
                  # [answerOf ''r3'' (Str ''B'')]))
         (choiceAB single_choice))) = [Num 1, Num 1]
   \<and> map row_count (optionRows (questionStat
         (Some ([answerOf ''r1'' (Str ''A'')] @ [answerOf ''r3'' (Str ''B'')]))
         (choiceAB single_choice))) = [Num 1, Num 1]"
  using undeclared_values_are_ignored
      [of "choiceAB single_choice" "answerOf ''r2'' (Str ''C'')"
          "[answerOf ''r1'' (Str ''A'')]" "[answerOf ''r3'' (Str ''B'')]" "[]"]
  by (simp add: eval_defs Let_def)

subsection \<open>Sum of the counts\<close>

lemma sum_counts_Num: "sum_counts (map Num ns) = Some (sum_list ns)"
  by (induction ns) simp_all

lemma sum_count_list_distinct:
  assumes "distinct os" and "set vals \<subseteq> set os"
  shows "sum_list (map (count_list vals) os) = length vals"
proof -
  have "sum_list (map (count_list vals) os) = sum (count_list vals) (set os)"
    using assms(1) by (simp add: sum_list_distinct_conv_sum_set)
  also have "\<dots> = length vals"
    using assms(2) by (simp add: sum_count_set)
  finally show ?thesis .
qed

lemma sum_counts_choice:
  assumes "question_type q \<noteq> text_type" and "distinct (options q)"
    and "set (options q) \<inter> set objectPrototypeNames = {}"
    and "set (selections (answersTo q rows)) \<subseteq> set (options q)"
  shows "sum_counts (map row_count (optionRows (questionStat (Some rows) q)))
           = Some (length (selections (answersTo q rows)))"
proof -
  have "map row_count (optionRows (questionStat (Some rows) q))
          = map Num (map (count_list (selections (answersTo q rows))) (options q))"
    using assms(1,3) by (simp add: row_count_questionStat comp_def)
  then show ?thesis
    using assms(2,4) by (simp only: sum_counts_Num sum_count_list_distinct)
qed

lemma selections_declared_strings:
  assumes "\<forall>a \<in> set as. \<exists>s \<in> set os. answer_value a = Str s"
  shows "length (selections as) = length as \<and> set (selections as) \<subseteq> set os"
  using assms by (induction as) (auto simp: selections_def)

text \<open>
  The sum of the reported counts of a single-choice question is not always the number
  of its answers: an answer naming an undeclared option is counted in the total and in
  no row (0 against 1), an option declared twice has two rows that each show the
  counter of its text (2 against 1), and a row of an option named \<^verbatim>\<open>constructor\<close>
  shows no number, so that there is no sum.
\<close>

theorem single_choice_sum_counterexample:
  "question_type (choiceAB single_choice) = single_choice
   \<and> sum_counts (map row_count (optionRows
        (questionStats (Some [choiceAB single_choice]) (Some [answerOf ''r1'' (Str ''C'')]) ! 0)))
       = Some 0
   \<and> totalResponses
        (questionStats (Some [choiceAB single_choice]) (Some [answerOf ''r1'' (Str ''C'')]) ! 0)
       = 1
   \<and> sum_counts (map row_count (optionRows
        (questionStats (Some [choiceWith single_choice [''A'', ''A'']])
           (Some [answerOf ''r1'' (Str ''A'')]) ! 0))) = Some 2
   \<and> totalResponses
        (questionStats (Some [choiceWith single_choice [''A'', ''A'']])
           (Some [answerOf ''r1'' (Str ''A'')]) ! 0) = 1
   \<and> sum_counts (map row_count (optionRows
        (questionStats (Some [choiceWith single_choice [''constructor'', ''B'']])
           (Some [answerOf ''r1'' (Str ''B'')]) ! 0))) = None"
  by (simp add: eval_defs Let_def)

text \<open>
  C4, as amended. For a single-choice question among the fetched questions whose
  declared options are pairwise distinct and name no member of \<^verbatim>\<open>Object.prototype\<close>,
  and whose answers are each a string naming a declared option, the sum of the
  reported counts is the number of answers to the question. For a multiple-choice
  question the sum can exceed it: one answer selecting A and B gives the sum 2 for 1
  answer. The question with options A, B and the answers A, A, B is reported as
  A: 2 (67%), B: 1 (33%), with 3 answers.
\<close>

theorem single_choice_counts_sum_to_answers:
  "(i < length qs \<and> question_type (qs ! i) = single_choice \<and> distinct (options (qs ! i))
      \<and> set (options (qs ! i)) \<inter> set objectPrototypeNames = {}
      \<and> (\<forall>a \<in> set (answersTo (qs ! i) rows). \<exists>s \<in> set (options (qs ! i)). answer_value a = Str s)
     \<longrightarrow> sum_counts (map row_count (optionRows (questionStats (Some qs) (Some rows) ! i)))
           = Some (totalResponses (questionStats (Some qs) (Some rows) ! i))
         \<and> totalResponses (questionStats (Some qs) (Some rows) ! i)
             = length (answersTo (qs ! i) rows))
   \<and> sum_counts (map row_count (optionRows
        (questionStats (Some [choiceAB multiple_choice])
           (Some [answerOf ''r1'' (Arr [''A'', ''B''])]) ! 0))) = Some 2
   \<and> totalResponses
        (questionStats (Some [choiceAB multiple_choice])
           (Some [answerOf ''r1'' (Arr [''A'', ''B''])]) ! 0) = 1
   \<and> optionRows (questionStats (Some [choiceAB single_choice])
        (Some [answerOf ''r1'' (Str ''A''), answerOf ''r2'' (Str ''A''), answerOf ''r3'' (Str ''B'')])
        ! 0)
       = [\<lparr>row_option = ''A'', row_count = Num 2, row_percentage = Finite 67\<rparr>,
          \<lparr>row_option = ''B'', row_count = Num 1, row_percentage = Finite 33\<rparr>]
   \<and> totalResponses (questionStats (Some [choiceAB single_choice])
        (Some [answerOf ''r1'' (Str ''A''), answerOf ''r2'' (Str ''A''), answerOf ''r3'' (Str ''B'')])
        ! 0) = 3"
proof -
  have 1: "sum_counts (map row_count (optionRows (questionStats (Some qs) (Some rows) ! i)))
           = Some (totalResponses (questionStats (Some qs) (Some rows) ! i))
         \<and> totalResponses (questionStats (Some qs) (Some rows) ! i)
             = length (answersTo (qs ! i) rows)"
    if i: "i < length qs" and ty: "question_type (qs ! i) = single_choice"
      and d: "distinct (options (qs ! i))"
      and o: "set (options (qs ! i)) \<inter> set objectPrototypeNames = {}"
      and s: "\<forall>a \<in> set (answersTo (qs ! i) rows). \<exists>s \<in> set (options (qs ! i)). answer_value a = Str s"
  proof -
    have stat: "questionStats (Some qs) (Some rows) ! i = questionStat (Some rows) (qs ! i)"
      using i by (rule questionStats_nth)
    have "length (selections (answersTo (qs ! i) rows)) = length (answersTo (qs ! i) rows)"
      and "set (selections (answersTo (qs ! i) rows)) \<subseteq> set (options (qs ! i))"
      using selections_declared_strings [OF s] by simp_all
    then show ?thesis
      using ty d o by (simp add: stat sum_counts_choice totalResponses_questionStat)
  qed
  have 2: "sum_counts (map row_count (optionRows
        (questionStats (Some [choiceAB multiple_choice])
           (Some [answerOf ''r1'' (Arr [''A'', ''B''])]) ! 0))) = Some 2
   \<and> totalResponses
        (questionStats (Some [choiceAB multiple_choice])
           (Some [answerOf ''r1'' (Arr [''A'', ''B''])]) ! 0) = 1"
    by (simp add: eval_defs Let_def)
  have g: "getPercentage (Num (Suc (Suc 0))) (Suc (Suc (Suc 0))) = Finite 67"
    "getPercentage (Num (Suc 0)) (Suc (Suc (Suc 0))) = Finite 33"
    using getPercentage_examples(1,2) by (simp_all add: numeral_2_eq_2 numeral_3_eq_3)
  have 3: "optionRows (questionStats (Some [choiceAB single_choice])
        (Some [answerOf ''r1'' (Str ''A''), answerOf ''r2'' (Str ''A''), answerOf ''r3'' (Str ''B'')])
        ! 0)
       = [\<lparr>row_option = ''A'', row_count = Num 2, row_percentage = Finite 67\<rparr>,
          \<lparr>row_option = ''B'', row_count = Num 1, row_percentage = Finite 33\<rparr>]
   \<and> totalResponses (questionStats (Some [choiceAB single_choice])
        (Some [answerOf ''r1'' (Str ''A''), answerOf ''r2'' (Str ''A''), answerOf ''r3'' (Str ''B'')])
        ! 0) = 3"
    by (simp add: eval_defs Let_def g)
  from 1 2 3 show ?thesis by blast
qed

theorem single_choice_counts_sum_to_answers_witness:
  "(0::nat) < length [choiceAB single_choice]
   \<and> question_type ([choiceAB single_choice] ! 0) = single_choice
   \<and> distinct (options ([choiceAB single_choice] ! 0))
   \<and> set (options ([choiceAB single_choice] ! 0)) \<inter> set objectPrototypeNames = {}
   \<and> answersTo ([choiceAB single_choice] ! 0)
         [answerOf ''r1'' (Str ''A''), answerOf ''r2'' (Str ''B'')]
       = [answerOf ''r1'' (Str ''A''), answerOf ''r2'' (Str ''B'')]
   \<and> answer_value (answerOf ''r1'' (Str ''A'')) = Str ''A''
   \<and> ''A'' \<in> set (options ([choiceAB single_choice] ! 0))
   \<and> answer_value (answerOf ''r2'' (Str ''B'')) = Str ''B''
   \<and> ''B'' \<in> set (options ([choiceAB single_choice] ! 0))
   \<and> sum_counts (map row_count (optionRows (questionStats (Some [choiceAB single_choice])
        (Some [answerOf ''r1'' (Str ''A''), answerOf ''r2'' (Str ''B'')]) ! 0))) = Some 2
   \<and> totalResponses (questionStats (Some [choiceAB single_choice])
        (Some [answerOf ''r1'' (Str ''A''), answerOf ''r2'' (Str ''B'')]) ! 0) = 2"
  using single_choice_counts_sum_to_answers
      [of 0 "[choiceAB single_choice]" "[answerOf ''r1'' (Str ''A''), answerOf ''r2'' (Str ''B'')]"]
  by (simp add: eval_defs Let_def)


section \<open>Percentages\<close>




section \<open>Selection of responses to compare\<close>

lemma selectDefault_cases:
  "selectDefault None current = current"
  "selectDefault (Some []) current = current"
  "selectDefault (Some [r]) current = [rid r]"
  "selectDefault (Some (r1 # r2 # rest)) current = [rid r1, rid r2]"
  by (simp_all add: selectDefault_def)

lemma selectDefault_take:
  "selectDefault (Some rs) current = (if rs = [] then current else map rid (take 2 rs))"
proof (cases rs)
  case Nil
  then show ?thesis by (simp add: selectDefault_def)
next
  case (Cons r1 rest)
  then show ?thesis by (cases rest) (simp_all add: selectDefault_def)
qed

lemma selected_after_load:
  "selectedResponses (loadComparisonData (Inr sv) (Inr qd) (Inr rd) ar st)
     = selectDefault rd (selectedResponses st)"
  by (cases ar) (simp_all add: loadComparisonData_def Let_def)

lemma newest_first_take_drop:
  assumes "sorted_wrt (\<lambda>a b. created_at b \<le> created_at a) rs"
    and "new \<in> set (take n rs)" and "old \<in> set (drop n rs)"
  shows "created_at old \<le> created_at new"
proof -
  have "sorted_wrt (\<lambda>a b. created_at b \<le> created_at a) (take n rs @ drop n rs)"
    using assms(1) by simp
  then show ?thesis
    using assms(2,3) unfolding sorted_wrt_append by blast
qed

text \<open>
  The selection after loading an empty history is not always empty: the load runs
  again when the user or the survey of a mounted view changes, and for no response it
  writes nothing. After a history of two responses, a second load that fetches none
  leaves both ids selected, with no response listed.
\<close>

theorem reload_keeps_selection_counterexample:
  "selectedResponses (fold comparisonStep
      [Load (Inr None) (Inr None) (Inr (Some [responseAt ''r2'' 20, responseAt ''r1'' 10]))
         (Inr None),
       Load (Inr None) (Inr None) (Inr (Some [])) (Inr None)]
      initialComparison) = [''r2'', ''r1'']
   \<and> cmp_responses (fold comparisonStep
      [Load (Inr None) (Inr None) (Inr (Some [responseAt ''r2'' 20, responseAt ''r1'' 10]))
         (Inr None),
       Load (Inr None) (Inr None) (Inr (Some [])) (Inr None)]
      initialComparison) = []"
  by (simp add: loadComparisonData_def initialComparison_def selectDefault_def responseAt_def
      orEmpty_def)

text \<open>
  C6, as amended. When the survey, question and response queries of a load succeed,
  the selection afterwards is, from any state of the view, the single response for a
  history of one and the first two fetched responses for a longer one; for an empty
  history (or \<^verbatim>\<open>null\<close> data) it is the selection as it was before the load, which is
  empty in a freshly mounted view. When the history is ordered newest first, no
  response left out is more recent than a selected one.
\<close>

theorem default_selection_after_load:
  "selectedResponses (loadComparisonData (Inr sv) (Inr qd) (Inr (Some [r])) ar st) = [rid r]
   \<and> selectedResponses (loadComparisonData (Inr sv) (Inr qd) (Inr (Some (r1 # r2 # rest))) ar st)
       = [rid r1, rid r2]
   \<and> selectedResponses (loadComparisonData (Inr sv) (Inr qd) (Inr (Some [])) ar st)
       = selectedResponses st
   \<and> selectedResponses (loadComparisonData (Inr sv) (Inr qd) (Inr None) ar st)
       = selectedResponses st
   \<and> selectedResponses (loadComparisonData (Inr sv) (Inr qd) (Inr (Some rs)) ar st)
       = (if rs = [] then selectedResponses st else map rid (take 2 rs))
   \<and> selectedResponses
        (loadComparisonData (Inr sv) (Inr qd) (Inr (Some rs)) ar initialComparison)
       = map rid (take 2 rs)
   \<and> selectedResponses
        (loadComparisonData (Inr sv) (Inr qd) (Inr (Some [])) ar initialComparison) = []
   \<and> (sorted_wrt (\<lambda>a b. created_at b \<le> created_at a) rs \<longrightarrow>
        (\<forall>new \<in> set (take 2 rs). \<forall>old \<in> set (drop 2 rs). created_at old \<le> created_at new))"
proof -
  have init: "selectedResponses initialComparison = []"
    by (simp add: initialComparison_def)
  have "\<forall>new \<in> set (take 2 rs). \<forall>old \<in> set (drop 2 rs). created_at old \<le> created_at new"
    if "sorted_wrt (\<lambda>a b. created_at b \<le> created_at a) rs"
    using newest_first_take_drop [OF that] by blast
  then show ?thesis
    by (simp add: selected_after_load init selectDefault_cases) (simp add: selectDefault_take)
qed

theorem default_selection_after_load_witness:
  "sorted_wrt (\<lambda>a b. created_at b \<le> created_at a)
      [responseAt ''r3'' 30, responseAt ''r2'' 20, responseAt ''r1'' 10]
   \<and> selectedResponses
      (loadComparisonData (Inr None) (Inr None)
         (Inr (Some [responseAt ''r3'' 30, responseAt ''r2'' 20, responseAt ''r1'' 10]))
         (Inr None) initialComparison)
      = [''r3'', ''r2'']
   \<and> created_at (responseAt ''r1'' 10) \<le> created_at (responseAt ''r2'' 20)"
  using default_selection_after_load
    [of None None _ "Inr None" _ _ _ _
        "[responseAt ''r3'' 30, responseAt ''r2'' 20, responseAt ''r1'' 10]"]
  by (simp add: responseAt_def)

lemma toggle_length:
  "length (selectedResponses st) \<le> 3 \<Longrightarrow>
   length (selectedResponses (toggleResponseSelection r st)) \<le> 3"
proof -
  assume a: "length (selectedResponses st) \<le> 3"
  have "length (filter (\<lambda>i. i \<noteq> r) (selectedResponses st)) \<le> length (selectedResponses st)"
    by (rule length_filter_le)
  with a have "length (filter (\<lambda>i. i \<noteq> r) (selectedResponses st)) \<le> 3"
    by linarith
  with a show ?thesis by (simp add: toggleResponseSelection_def)
qed

lemma selectDefault_length:
  "length current \<le> 3 \<Longrightarrow> length (selectDefault rd current) \<le> 3"
  by (simp add: selectDefault_def split: option.splits)

lemma load_length:
  "length (selectedResponses st) \<le> 3 \<Longrightarrow>
   length (selectedResponses (loadComparisonData sr qr rr ar st)) \<le> 3"
  by (simp add: loadComparisonData_def Let_def selectDefault_length split: sum.splits)

lemma step_length:
  "length (selectedResponses st) \<le> 3 \<Longrightarrow>
   length (selectedResponses (comparisonStep e st)) \<le> 3"
  by (cases e) (simp_all add: toggle_length load_length)

lemma steps_length:
  "length (selectedResponses st) \<le> 3 \<Longrightarrow>
   length (selectedResponses (fold comparisonStep events st)) \<le> 3"
  by (induction events arbitrary: st) (simp_all add: step_length)

text \<open>
  C7. From the initial state of the view, after any sequence of checkbox toggles and
  data loads at most 3 responses are selected. A toggle keeps a selection of at most 3
  within 3: toggling a selected response removes it, toggling an unselected one
  appends it when fewer than 3 are selected and changes nothing otherwise.
\<close>

theorem selection_never_exceeds_three:
  "length (selectedResponses (fold comparisonStep events initialComparison)) \<le> 3
   \<and> (length (selectedResponses st) \<le> 3 \<longrightarrow>
        length (selectedResponses (toggleResponseSelection r st)) \<le> 3)
   \<and> (r \<in> set (selectedResponses st) \<longrightarrow>
        selectedResponses (toggleResponseSelection r st)
          = filter (\<lambda>i. i \<noteq> r) (selectedResponses st))
   \<and> (r \<notin> set (selectedResponses st) \<and> length (selectedResponses st) < 3 \<longrightarrow>
        selectedResponses (toggleResponseSelection r st) = selectedResponses st @ [r])
   \<and> (r \<notin> set (selectedResponses st) \<and> \<not> length (selectedResponses st) < 3 \<longrightarrow>
        toggleResponseSelection r st = st)"
proof -
  have "length (selectedResponses initialComparison) \<le> 3"
    by (simp add: initialComparison_def)
  then have "length (selectedResponses (fold comparisonStep events initialComparison)) \<le> 3"
    by (rule steps_length)
  then show ?thesis
    by (simp add: toggle_length) (simp add: toggleResponseSelection_def)
qed

theorem selection_never_exceeds_three_witness:
  "selectedResponses (fold comparisonStep
      [Load (Inr None) (Inr None)
         (Inr (Some [responseAt ''r4'' 40, responseAt ''r3'' 30, responseAt ''r2'' 20,
                     responseAt ''r1'' 10]))
         (Inr None),
       Toggle ''r2'', Toggle ''r1'', Toggle ''r4'', Toggle ''r1'']
      initialComparison) = [''r3'', ''r2'', ''r1'']
   \<and> length [''r3'', ''r2'', ''r1''] \<le> (3::nat)"
  using selection_never_exceeds_three
    [of "[Load (Inr None) (Inr None)
         (Inr (Some [responseAt ''r4'' 40, responseAt ''r3'' 30, responseAt ''r2'' 20,
                     responseAt ''r1'' 10]))
         (Inr None),
       Toggle ''r2'', Toggle ''r1'', Toggle ''r4'', Toggle ''r1'']"]
  by (simp add: responseAt_def loadComparisonData_def initialComparison_def selectDefault_def
      toggleResponseSelection_def orEmpty_def)

section \<open>Required answers\<close>

lemmas take_defs = exampleSurvey_def exampleStore_def noFailure_def submitEnv_def choiceAB_def
  choiceWith_def loadSurvey_def maybeSingle_def select_rows_def initialTake_def
  handleCheckboxChange_def handleAnswerChange_def handleSubmit_def insert_response_def
  insert_answers_def renderTake_def

lemma handleSubmit_blocked:
  assumes "firstUnanswered (t_questions st) (map_of (t_answers st)) = Some q"
  shows "handleSubmit env surveyId userId db st
           = \<lparr> ui = st\<lparr>t_error := Some (please_answer (question_text q))\<rparr>,
               store = db, onSuccess = False \<rparr>"
  using assms by (simp add: handleSubmit_def)

lemma firstUnanswered_Some:
  assumes "firstUnanswered qs recorded = Some q"
  shows "\<exists>before after. qs = before @ q # after
           \<and> is_required q \<and> \<not> truthy (recorded (qid q))
           \<and> (\<forall>p \<in> set before. \<not> (is_required p \<and> \<not> truthy (recorded (qid p))))"
  using assms
proof (induction qs)
  case Nil
  then show ?case by simp
next
  case (Cons p qs)
  show ?case
  proof (cases "is_required p \<and> \<not> truthy (recorded (qid p))")
    case True
    with Cons.prems have "p = q" by simp
    with True show ?thesis by (intro exI [of _ "[]"] exI [of _ qs]) simp
  next
    case False
    with Cons.prems have "firstUnanswered qs recorded = Some q" by auto
    from Cons.IH [OF this] obtain before after where
      "qs = before @ q # after" "is_required q" "\<not> truthy (recorded (qid q))"
      "\<forall>p \<in> set before. \<not> (is_required p \<and> \<not> truthy (recorded (qid p)))"
      by blast
    with False show ?thesis
      by (intro exI [of _ "p # before"] exI [of _ after]) auto
  qed
qed

lemma firstUnanswered_None:
  "firstUnanswered qs recorded = None
     \<longleftrightarrow> (\<forall>q \<in> set qs. is_required q \<longrightarrow> truthy (recorded (qid q)))"
  by (induction qs) auto

text \<open>The sibling path: the same required question, never touched, blocks the submission.\<close>

lemma untouched_required_is_blocked:
  "handleSubmit (submitEnv ''r1'' 7 None) ''s1'' ''u1'' (exampleStore [choiceAB multiple_choice])
     (loadSurvey noFailure ''s1'' ''u1'' (exampleStore [choiceAB multiple_choice]) initialTake)
   = \<lparr> ui = (loadSurvey noFailure ''s1'' ''u1'' (exampleStore [choiceAB multiple_choice])
                 initialTake) \<lparr>t_error := Some (please_answer ''Pick'')\<rparr>,
       store = exampleStore [choiceAB multiple_choice], onSuccess = False \<rparr>"
  by (simp add: take_defs)

text \<open>
  C1. A required question without a non-empty recorded answer should block the
  submission before any write. The check is \<^verbatim>\<open>!answers[question.id]\<close>, which holds
  for a missing answer and for the empty string but not for the empty list. On a
  survey whose only question is a required multiple-choice one, ticking option A and
  unticking it records the empty list; submitting then writes a response row and an
  answer row holding the empty list, calls \<^verbatim>\<open>onSuccess\<close> and reports no error.
\<close>

theorem emptied_required_multi_select_is_submitted:
  "is_required (choiceAB multiple_choice)
   \<and> t_questions (loadSurvey noFailure ''s1'' ''u1'' (exampleStore [choiceAB multiple_choice]) initialTake)
       = [choiceAB multiple_choice]
   \<and> t_answers
        (handleCheckboxChange ''q1'' ''A'' False
          (handleCheckboxChange ''q1'' ''A'' True
            (loadSurvey noFailure ''s1'' ''u1'' (exampleStore [choiceAB multiple_choice]) initialTake)))
       = [(''q1'', Arr [])]
   \<and> store (handleSubmit (submitEnv ''r1'' 7 None) ''s1'' ''u1''
        (exampleStore [choiceAB multiple_choice])
        (handleCheckboxChange ''q1'' ''A'' False
          (handleCheckboxChange ''q1'' ''A'' True
            (loadSurvey noFailure ''s1'' ''u1'' (exampleStore [choiceAB multiple_choice]) initialTake))))
       = (exampleStore [choiceAB multiple_choice])
           \<lparr> tbl_responses := [\<lparr> rid = ''r1'', survey_id = ''s1'', user_id = ''u1'', created_at = 7 \<rparr>],
             tbl_answers := [\<lparr> response_id = ''r1'', question_id = ''q1'', answer_value = Arr [] \<rparr>] \<rparr>
   \<and> onSuccess (handleSubmit (submitEnv ''r1'' 7 None) ''s1'' ''u1''
        (exampleStore [choiceAB multiple_choice])
        (handleCheckboxChange ''q1'' ''A'' False
          (handleCheckboxChange ''q1'' ''A'' True
            (loadSurvey noFailure ''s1'' ''u1'' (exampleStore [choiceAB multiple_choice]) initialTake))))
   \<and> t_error (ui (handleSubmit (submitEnv ''r1'' 7 None) ''s1'' ''u1''
        (exampleStore [choiceAB multiple_choice])
        (handleCheckboxChange ''q1'' ''A'' False
          (handleCheckboxChange ''q1'' ''A'' True
            (loadSurvey noFailure ''s1'' ''u1'' (exampleStore [choiceAB multiple_choice]) initialTake)))))
       = None"
  by (simp add: take_defs)

section \<open>One response per respondent\<close>


lemma insert_answers_responses:
  "insert_answers failure rows db = Inr db' \<Longrightarrow> tbl_responses db' = tbl_responses db"
  by (auto simp: insert_answers_def split: option.splits)










section \<open>Validation of a new survey\<close>

lemma trim_empty: "trim [] = []"
  by (simp add: trim_def)

lemma dropWhile_all: "(\<forall>x \<in> set (dropWhile P xs). P x) \<longleftrightarrow> (\<forall>x \<in> set xs. P x)"
proof
  assume a: "\<forall>x \<in> set (dropWhile P xs). P x"
  have "dropWhile P xs = []"
  proof (rule ccontr)
    assume ne: "dropWhile P xs \<noteq> []"
    then have "\<not> P (hd (dropWhile P xs))" by (rule hd_dropWhile)
    moreover from ne have "hd (dropWhile P xs) \<in> set (dropWhile P xs)" by simp
    ultimately show False using a by blast
  qed
  then show "\<forall>x \<in> set xs. P x" by (simp add: dropWhile_eq_Nil_conv)
next
  assume "\<forall>x \<in> set xs. P x"
  then show "\<forall>x \<in> set (dropWhile P xs). P x" by (auto dest: set_dropWhileD)
qed

lemma trim_blank: "trim s = [] \<longleftrightarrow> (\<forall>c \<in> set s. isWhiteSpace c)"
proof -
  have "trim s = [] \<longleftrightarrow> (\<forall>x \<in> set (rev (dropWhile isWhiteSpace s)). isWhiteSpace x)"
    by (simp add: trim_def dropWhile_eq_Nil_conv)
  also have "\<dots> \<longleftrightarrow> (\<forall>c \<in> set s. isWhiteSpace c)"
    by (simp add: dropWhile_all)
  finally show ?thesis .
qed

lemma checkQuestions_None:
  "checkQuestions i qs = None \<longleftrightarrow>
     (\<forall>q \<in> set qs. trim (question_text q) \<noteq> []
        \<and> \<not> (question_type q \<noteq> text_type \<and> length (options q) < 2))"
  by (induction i qs rule: checkQuestions.induct) auto

lemma checkQuestions_Some:
  assumes "checkQuestions i qs = Some m"
  shows "\<exists>n < length qs.
           (m = question_text_empty (i + n + 1) \<and> trim (question_text (qs ! n)) = [])
           \<or> (m = need_two_options (i + n + 1) \<and> question_type (qs ! n) \<noteq> text_type
               \<and> length (options (qs ! n)) < 2)"
  using assms
proof (induction i qs rule: checkQuestions.induct)
  case (1 i)
  then show ?case by simp
next
  case (2 i q qs)
  show ?case
  proof (cases "trim (question_text q) = []
      \<or> (question_type q \<noteq> text_type \<and> length (options q) < 2)")
    case True
    with "2.prems" show ?thesis
      by (intro exI [of _ 0]) (auto split: if_splits)
  next
    case False
    with "2.prems" have "checkQuestions (i + 1) qs = Some m" by (auto split: if_splits)
    with "2.IH" False obtain n where "n < length qs"
      "(m = question_text_empty (i + 1 + n + 1) \<and> trim (question_text (qs ! n)) = [])
        \<or> (m = need_two_options (i + 1 + n + 1) \<and> question_type (qs ! n) \<noteq> text_type
            \<and> length (options (qs ! n)) < 2)"
      by blast
    then show ?thesis
      by (intro exI [of _ "Suc n"]) auto
  qed
qed

lemma validate_offends:
  assumes "validate st = Some m"
  shows "offends st m"
proof (cases "trim (c_title st) = []")
  case True
  with assms show ?thesis by (auto simp: validate_def)
next
  case False
  note title = this
  show ?thesis
  proof (cases "c_questions st = []")
    case True
    with assms title show ?thesis by (auto simp: validate_def)
  next
    case False
    with assms title have "checkQuestions 0 (c_questions st) = Some m"
      by (simp add: validate_def)
    from checkQuestions_Some [OF this] show ?thesis by auto
  qed
qed

lemma validate_None: "validate st = None \<longleftrightarrow> \<not> invalid_draft st"
  by (auto simp: validate_def invalid_draft_def checkQuestions_None)

lemma handleSave_invalid:
  assumes "validate st = Some m"
  shows "handleSave env userId db st
           = \<lparr> ui = st\<lparr>c_error := Some m\<rparr>, store = db, onSuccess = False \<rparr>"
  using assms by (simp add: handleSave_def)

text \<open>
  C9. Saving a draft whose title is blank, or that has no question, or that has a
  question of blank text, or a choice question with fewer than two options, writes
  nothing, does not call \<^verbatim>\<open>onSuccess\<close> and sets one message, which is tied to an
  offending field: the title message for a blank title, else the message for no
  questions, else the message naming the first offending question by its number.
\<close>

theorem invalid_survey_is_not_saved:
  "(invalid_draft st \<longrightarrow>
      (\<exists>m. offends st m
         \<and> handleSave env userId db st
             = \<lparr> ui = st\<lparr>c_error := Some m\<rparr>, store = db, onSuccess = False \<rparr>))
   \<and> (trim (c_title st) = [] \<longrightarrow>
        c_error (ui (handleSave env userId db st)) = Some enter_title)
   \<and> (trim (c_title st) \<noteq> [] \<and> c_questions st = [] \<longrightarrow>
        c_error (ui (handleSave env userId db st)) = Some add_a_question)"
proof -
  have 1: "\<exists>m. offends st m
         \<and> handleSave env userId db st
             = \<lparr> ui = st\<lparr>c_error := Some m\<rparr>, store = db, onSuccess = False \<rparr>"
    if "invalid_draft st"
  proof -
    from that obtain m where m: "validate st = Some m"
      using validate_None [of st] by (cases "validate st") auto
    then show ?thesis
      using validate_offends [OF m] handleSave_invalid [OF m] by blast
  qed
  have 2: "c_error (ui (handleSave env userId db st)) = Some enter_title"
    if "trim (c_title st) = []"
    using that by (simp add: handleSave_def validate_def)
  have 3: "c_error (ui (handleSave env userId db st)) = Some add_a_question"
    if "trim (c_title st) \<noteq> []" "c_questions st = []"
    using that by (simp add: handleSave_def validate_def)
  show ?thesis using 1 2 3 by blast
qed

theorem invalid_survey_is_not_saved_witness:
  "invalid_draft (draftOf ''Lunch'' [draftQuestion ''Where?'' single_choice [''Here'']])
   \<and> handleSave saveEnv ''u1'' (exampleStore [])
        (draftOf ''Lunch'' [draftQuestion ''Where?'' single_choice [''Here'']])
       = \<lparr> ui = (draftOf ''Lunch'' [draftQuestion ''Where?'' single_choice [''Here'']])
                 \<lparr>c_error := Some (need_two_options 1)\<rparr>,
           store = exampleStore [], onSuccess = False \<rparr>
   \<and> trim (c_title (draftOf ''  '' [])) = []
   \<and> c_error (ui (handleSave saveEnv ''u1'' (exampleStore []) (draftOf ''  '' [])))
       = Some enter_title"
  using invalid_survey_is_not_saved
      [of "draftOf ''Lunch'' [draftQuestion ''Where?'' single_choice [''Here'']]" saveEnv "''u1''"
          "exampleStore []"]
    invalid_survey_is_not_saved [of "draftOf ''  '' []" saveEnv "''u1''" "exampleStore []"]
  by (simp add: invalid_draft_def draftOf_def draftQuestion_def handleSave_def validate_def
      trim_def isWhiteSpace_def)

text \<open>A draft with none of these defects is saved.\<close>

lemma valid_draft_is_saved:
  "handleSave saveEnv ''u1'' (exampleStore [])
        (draftOf ''Lunch'' [draftQuestion ''Where?'' single_choice [''Here'', ''There'']])
   = \<lparr> ui = draftOf ''Lunch'' [draftQuestion ''Where?'' single_choice [''Here'', ''There'']],
        store = (exampleStore [])
          \<lparr> tbl_surveys := [exampleSurvey, 
               \<lparr> sid = ''s2'', title = ''Lunch'', description = [], creator_id = ''u1'', is_active = True \<rparr>],
            tbl_questions := [\<lparr> question_text = ''Where?'', question_type = single_choice,
               options = [''Here'', ''There''], is_required = True, order_index = 0,
               qid = ''q'', q_survey_id = ''s2'' \<rparr>] \<rparr>,
        onSuccess = True \<rparr>"
  by (simp add: draftOf_def draftQuestion_def handleSave_def validate_def
      trim_def isWhiteSpace_def saveEnv_def insert_survey_def insert_questions_def exampleStore_def exampleSurvey_def enumerate_eq_zip)

end
